theory Spec2Isabelle
  imports Complex_Main "HOL-Library.Word"
begin

section \<open>Python values\<close>

text \<open>
  A Python \<open>str\<close> is a sequence of Unicode code points; \<open>bytes\<close> is a sequence of
  octets. \<open>ascii\<close> turns an ASCII literal of the source into its code points.
\<close>

type_synonym py_str = "nat list"

type_synonym bytes = "8 word list"

definition ascii :: "string \<Rightarrow> py_str" where
  "ascii s = map of_char s"

text \<open>
  The values \<open>response.json()\<close> can return. A float is the exact value of a finite
  double, an infinity (\<open>True\<close> for the positive one) or NaN. A dict is given by its items;
  a lookup takes the first item with the key.
\<close>

datatype py_float = Finite rat | Infinite bool | NaN

datatype py_value =
    PyNone
  | PyBool bool
  | PyInt int
  | PyFloat py_float
  | PyStr py_str
  | PyList "py_value list"
  | PyDict "(py_str \<times> py_value) list"

text \<open>\<open>type(v).__name__\<close>\<close>

fun type_name :: "py_value \<Rightarrow> string" where
  "type_name PyNone = ''NoneType''"
| "type_name (PyBool _) = ''bool''"
| "type_name (PyInt _) = ''int''"
| "type_name (PyFloat _) = ''float''"
| "type_name (PyStr _) = ''str''"
| "type_name (PyList _) = ''list''"
| "type_name (PyDict _) = ''dict''"

text \<open>
  \<open>v == n\<close> for an integer literal \<open>n\<close>: numbers compare by value (\<open>200.0 == 200\<close>,
  \<open>True == 1\<close>), everything else is unequal to a number.
\<close>

fun py_eq_int :: "py_value \<Rightarrow> int \<Rightarrow> bool" where
  "py_eq_int (PyInt i) n = (i = n)"
| "py_eq_int (PyBool b) n = ((if b then 1 else 0) = n)"
| "py_eq_int (PyFloat (Finite r)) n = (r = of_int n)"
| "py_eq_int _ n = False"

text \<open>\<open>str(n)\<close> for an integer: its decimal digits.\<close>

function str_nat :: "nat \<Rightarrow> py_str" where
  "str_nat n = (if n < 10 then [48 + n] else str_nat (n div 10) @ [48 + n mod 10])"
  by pat_completeness auto
termination
  by (relation "measure (\<lambda>n. n)") auto

definition str_int :: "int \<Rightarrow> py_str" where
  "str_int i = (if i < 0 then 45 # str_nat (nat (- i)) else str_nat (nat i))"

section \<open>Exceptions\<close>

text \<open>
  An \<open>except C\<close> clause catches an exception whose class has \<open>C\<close> among its bases, so an
  exception is modelled with the list of classes it is an instance of (its method
  resolution order). The three classes of \<open>requests.exceptions\<close> that \<open>parse_file\<close> names
  and the two built-in roots have constructors of their own; any other class is named.
  \<open>exc_args\<close> are the values the exception was built from, and \<open>exc_response\<close> is the
  \<open>response\<close> attribute of a \<open>requests\<close> exception (\<open>None\<close>, or a response with its
  \<open>status_code\<close> and \<open>text\<close>).
\<close>

datatype py_class =
    Req_Timeout
  | Req_ConnectionError
  | Req_HTTPError
  | Py_Exception
  | Py_BaseException
  | Other_Class string

record py_exception =
  exc_mro :: "py_class list"
  exc_args :: "py_value list"
  exc_response :: "(int \<times> py_str) option"

definition isinstance :: "py_exception \<Rightarrow> py_class \<Rightarrow> bool" where
  "isinstance e c = (c \<in> set (exc_mro e))"

definition builtin_error :: "string list \<Rightarrow> py_value list \<Rightarrow> py_exception" where
  "builtin_error classes args =
     \<lparr>exc_mro = map Other_Class classes @ [Py_Exception, Py_BaseException],
      exc_args = args, exc_response = None\<rparr>"

definition AttributeError :: "string \<Rightarrow> string \<Rightarrow> py_exception" where
  "AttributeError tname attr =
     builtin_error [''AttributeError'']
       [PyStr (ascii ([CHR 0x27] @ tname @ [CHR 0x27] @ '' object has no attribute ''
                      @ [CHR 0x27] @ attr @ [CHR 0x27]))]"

definition TypeError :: "string \<Rightarrow> py_exception" where
  "TypeError msg = builtin_error [''TypeError''] [PyStr (ascii msg)]"

section \<open>The filesystem\<close>

text \<open>
  Paths are relative to the working directory and given by their components; \<open>[]\<close> is the
  working directory itself. The filesystem maps a path to its node: a regular file with
  its bytes, or a directory with the names of its entries in the order the operating
  system lists them. A name listed in a directory with no node of its own is an entry that
  cannot be opened (a dangling link).
\<close>

type_synonym path = "py_str list"

datatype node = File bytes | Dir "py_str list"

type_synonym filesystem = "path \<Rightarrow> node option"

definition path_str :: "path \<Rightarrow> py_str" where
  "path_str p = (case p of [] \<Rightarrow> ascii ''.'' | c # cs \<Rightarrow> foldl (\<lambda>s d. s @ ascii ''/'' @ d) c cs)"

text \<open>
  An \<open>OSError\<close> for a path: \<open>classes\<close> are the subclasses of \<open>OSError\<close> it is an instance
  of (none for a plain \<open>OSError\<close>).
\<close>

definition os_error :: "string list \<Rightarrow> int \<Rightarrow> string \<Rightarrow> path \<Rightarrow> py_exception" where
  "os_error classes errno strerror p =
     builtin_error (classes @ [''OSError''])
       [PyInt errno, PyStr (ascii strerror), PyStr (path_str p)]"

definition FileNotFoundError :: "path \<Rightarrow> py_exception" where
  "FileNotFoundError p = os_error [''FileNotFoundError''] 2 ''No such file or directory'' p"

definition FileExistsError :: "path \<Rightarrow> py_exception" where
  "FileExistsError p = os_error [''FileExistsError''] 17 ''File exists'' p"

definition NotADirectoryError :: "path \<Rightarrow> py_exception" where
  "NotADirectoryError p = os_error [''NotADirectoryError''] 20 ''Not a directory'' p"

definition IsADirectoryError :: "path \<Rightarrow> py_exception" where
  "IsADirectoryError p = os_error [''IsADirectoryError''] 21 ''Is a directory'' p"

text \<open>
  What the node map does not tell: the operating system can refuse to make a directory,
  to create or open a file for writing, or to take the data written, for a name that is
  too long (\<open>ENAMETOOLONG\<close>), a missing permission (\<open>EACCES\<close>), a read-only filesystem
  (\<open>EROFS\<close>), a full disk (\<open>ENOSPC\<close>) and the like. A fault is the \<open>OSError\<close> raised then:
  its subclasses, \<open>errno\<close> and message. \<open>os_faults\<close> gives, for each path, the fault
  of \<open>os.mkdir\<close>, the fault of opening the file for writing, and the fault of writing to
  the open file together with the bytes that reached the file before it; \<open>None\<close> where
  the operating system refuses nothing.
\<close>

type_synonym os_fault = "string list \<times> int \<times> string"

record os_faults =
  mkdir_fault :: "path \<Rightarrow> os_fault option"
  open_fault :: "path \<Rightarrow> os_fault option"
  write_fault :: "path \<Rightarrow> (os_fault \<times> bytes) option"

definition fault_error :: "os_fault \<Rightarrow> path \<Rightarrow> py_exception" where
  "fault_error flt p = (case flt of (classes, errno, strerror) \<Rightarrow> os_error classes errno strerror p)"

definition path_exists :: "filesystem \<Rightarrow> path \<Rightarrow> bool" where
  "path_exists fs p = (p = [] \<or> fs p \<noteq> None)"

definition is_dir :: "filesystem \<Rightarrow> path \<Rightarrow> bool" where
  "is_dir fs p = (p = [] \<or> (case fs p of Some (Dir _) \<Rightarrow> True | _ \<Rightarrow> False))"

text \<open>
  \<open>Path.glob("*")\<close>: every entry of the directory, hidden ones and subdirectories
  included, in listing order; nothing when the path is not a directory.
\<close>

definition glob_star :: "filesystem \<Rightarrow> path \<Rightarrow> path list" where
  "glob_star fs d = (case fs d of Some (Dir names) \<Rightarrow> map (\<lambda>n. d @ [n]) names | _ \<Rightarrow> [])"

text \<open>\<open>open(p, 'rb')\<close>, with the bytes a reader of the handle gets.\<close>

definition open_rb :: "filesystem \<Rightarrow> path \<Rightarrow> py_exception + bytes" where
  "open_rb fs p =
     (case fs p of
        None \<Rightarrow> Inl (FileNotFoundError p)
      | Some (Dir _) \<Rightarrow> Inl (IsADirectoryError p)
      | Some (File b) \<Rightarrow> Inr b)"

text \<open>A new node is stored under its path and listed last in its parent directory.\<close>

definition add_entry :: "filesystem \<Rightarrow> path \<Rightarrow> node \<Rightarrow> filesystem" where
  "add_entry fs p n =
     (case fs (butlast p) of
        Some (Dir names) \<Rightarrow> fs(butlast p \<mapsto> Dir (names @ [last p]), p \<mapsto> n)
      | _ \<Rightarrow> fs(p \<mapsto> n))"

text \<open>\<open>os.mkdir(p)\<close>\<close>

definition os_mkdir :: "os_faults \<Rightarrow> filesystem \<Rightarrow> path \<Rightarrow> py_exception + filesystem" where
  "os_mkdir os fs p =
     (if path_exists fs p then Inl (FileExistsError p)
      else if \<not> path_exists fs (butlast p) then Inl (FileNotFoundError p)
      else if \<not> is_dir fs (butlast p) then Inl (NotADirectoryError p)
      else (case mkdir_fault os p of
              Some flt \<Rightarrow> Inl (fault_error flt p)
            | None \<Rightarrow> Inr (add_entry fs p (Dir []))))"

text \<open>
  \<open>Path.mkdir(parents=..., exist_ok=True)\<close>: \<open>os.mkdir\<close> is tried first; on
  \<open>FileNotFoundError\<close> with \<open>parents\<close> set the parent is made the same way and the
  directory is made again without \<open>parents\<close>; any other \<open>OSError\<close> is dropped when the
  path is a directory by then. The result is the exception raised, if any, and the
  filesystem left behind.
\<close>

function mkdir_exist_ok ::
  "os_faults \<Rightarrow> bool \<Rightarrow> filesystem \<Rightarrow> path \<Rightarrow> py_exception option \<times> filesystem" where
  "mkdir_exist_ok os parents fs p =
     (case os_mkdir os fs p of
        Inr fs' \<Rightarrow> (None, fs')
      | Inl e \<Rightarrow>
          if isinstance e (Other_Class ''FileNotFoundError'') then
            (if \<not> parents \<or> p = [] then (Some e, fs)
             else (case mkdir_exist_ok os True fs (butlast p) of
                     (Some e', fs') \<Rightarrow> (Some e', fs')
                   | (None, fs') \<Rightarrow> mkdir_exist_ok os False fs' p))
          else if is_dir fs p then (None, fs)
          else (Some e, fs))"
  by pat_completeness auto
termination
  by (relation "measure (\<lambda>(os, parents, fs, p). 2 * length p + (if parents then 1 else 0))") auto

text \<open>The UTF-8 encoding of a string without surrogate code points.\<close>

definition surrogate :: "nat \<Rightarrow> bool" where
  "surrogate c = (0xD800 \<le> c \<and> c \<le> 0xDFFF)"

definition utf8_char :: "nat \<Rightarrow> bytes" where
  "utf8_char c =
     (if c < 0x80 then [of_nat c]
      else if c < 0x800 then [of_nat (0xC0 + c div 64), of_nat (0x80 + c mod 64)]
      else if c < 0x10000 then
        [of_nat (0xE0 + c div 4096), of_nat (0x80 + c div 64 mod 64), of_nat (0x80 + c mod 64)]
      else
        [of_nat (0xF0 + c div 262144), of_nat (0x80 + c div 4096 mod 64),
         of_nat (0x80 + c div 64 mod 64), of_nat (0x80 + c mod 64)])"

definition utf8_encode :: "py_str \<Rightarrow> bytes" where
  "utf8_encode s = concat (map utf8_char s)"

definition UnicodeEncodeError :: "py_str \<Rightarrow> py_exception" where
  "UnicodeEncodeError s =
     (let start = length (takeWhile (\<lambda>c. \<not> surrogate c) s);
          run = length (takeWhile surrogate (dropWhile (\<lambda>c. \<not> surrogate c) s))
      in builtin_error [''UnicodeEncodeError'', ''UnicodeError'', ''ValueError'']
           [PyStr (ascii ''utf-8''), PyStr s, PyInt (int start), PyInt (int (start + run)),
            PyStr (ascii ''surrogates not allowed'')])"

text \<open>
  \<open>open(p, 'w')\<close>: the file is created, or truncated when it exists, unless the
  operating system refuses.
\<close>

definition open_w :: "os_faults \<Rightarrow> filesystem \<Rightarrow> path \<Rightarrow> py_exception + filesystem" where
  "open_w os fs p =
     (case fs p of
        Some (Dir _) \<Rightarrow> Inl (IsADirectoryError p)
      | Some (File _) \<Rightarrow>
          (case open_fault os p of
             Some flt \<Rightarrow> Inl (fault_error flt p)
           | None \<Rightarrow> Inr (fs(p \<mapsto> File [])))
      | None \<Rightarrow>
          if \<not> path_exists fs (butlast p) then Inl (FileNotFoundError p)
          else if \<not> is_dir fs (butlast p) then Inl (NotADirectoryError p)
          else (case open_fault os p of
                  Some flt \<Rightarrow> Inl (fault_error flt p)
                | None \<Rightarrow> Inr (add_entry fs p (File []))))"

text \<open>
  \<open>Path.write_text(data, encoding='utf-8')\<close>: the type of \<open>data\<close> is checked before the
  file is opened, and the text is encoded after that, so an encoding error leaves an empty
  file behind; the encoded text is then written, which the operating system can refuse
  as well.
\<close>

definition write_text ::
  "os_faults \<Rightarrow> filesystem \<Rightarrow> path \<Rightarrow> py_value \<Rightarrow> py_exception option \<times> filesystem" where
  "write_text os fs p data =
     (case data of
        PyStr s \<Rightarrow>
          (case open_w os fs p of
             Inl e \<Rightarrow> (Some e, fs)
           | Inr fs' \<Rightarrow>
               if list_ex surrogate s then (Some (UnicodeEncodeError s), fs')
               else (case write_fault os p of
                       Some (flt, written) \<Rightarrow> (Some (fault_error flt p), fs'(p \<mapsto> File written))
                     | None \<Rightarrow> (None, fs'(p \<mapsto> File (utf8_encode s)))))
      | _ \<Rightarrow> (Some (TypeError (''data must be str, not '' @ type_name data)), fs))"

text \<open>\<open>PurePath.stem\<close>: the name without its last suffix.\<close>

fun rfind :: "py_str \<Rightarrow> nat \<Rightarrow> nat option" where
  "rfind [] c = None"
| "rfind (x # xs) c =
     (case rfind xs c of
        Some i \<Rightarrow> Some (Suc i)
      | None \<Rightarrow> if x = c then Some 0 else None)"

definition stem :: "py_str \<Rightarrow> py_str" where
  "stem name =
     (case rfind name 46 of
        Some i \<Rightarrow> if 0 < i \<and> Suc i < length name then take i name else name
      | None \<Rightarrow> name)"

section \<open>The HTTP client\<close>

text \<open>
  The arguments of one \<open>requests.post\<close> call: the URL and the keyword arguments. An
  argument the call does not pass is \<open>None\<close>. \<open>req_files\<close> maps a form field to the file
  name, the bytes read from the open file and the content type.
\<close>

record request =
  req_url :: py_str
  req_files :: "(py_str \<times> py_str \<times> bytes \<times> py_str) list"
  req_params :: "(py_str \<times> py_value) list"
  req_timeout :: int
  req_headers :: "(py_str \<times> py_str) list option"
  req_cookies :: "(py_str \<times> py_str) list option"
  req_auth :: "(py_str \<times> py_str) option"

text \<open>
  A response object is what its two methods do: \<open>raise_for_status()\<close> returns or raises,
  \<open>json()\<close> returns a value or raises. The network is the behaviour of \<open>requests.post\<close>:
  for a request it raises an exception or returns a response.
\<close>

record response =
  raise_for_status :: "py_exception option"
  json :: "py_exception + py_value"

type_synonym network = "request \<Rightarrow> py_exception + response"

text \<open>\<open>result.get(key, default)\<close>: only a dict has the method.\<close>

definition py_get :: "py_value \<Rightarrow> string \<Rightarrow> py_value \<Rightarrow> py_exception + py_value" where
  "py_get v key dflt =
     (case v of
        PyDict items \<Rightarrow> Inr (case map_of items (ascii key) of None \<Rightarrow> dflt | Some x \<Rightarrow> x)
      | _ \<Rightarrow> Inl (AttributeError (type_name v) ''get''))"

section \<open>parse\_file\<close>

definition DATA_INPUTS :: path where
  "DATA_INPUTS = [ascii ''data'', ascii ''inputs'', ascii ''input'']"

definition DATA_OUTPUTS :: path where
  "DATA_OUTPUTS = [ascii ''data'', ascii ''outputs'']"

definition API_BASE_URL :: py_str where
  "API_BASE_URL = ascii ''http://10.0.0.111:31475''"

text \<open>
  The returned dictionary, as its items in the order of the source. A value is a Python
  value, or \<open>str(e)\<close> for an exception \<open>e\<close>, whose text is the library's and is not
  computed here.
\<close>

datatype res_value = Val py_value | Str_of py_exception

type_synonym result = "(string \<times> res_value) list"

text \<open>What one call does to the outside world, in order.\<close>

datatype event =
    Ev_glob path
  | Ev_open path
  | Ev_post request
  | Ev_mkdir path
  | Ev_write path py_value

record outcome =
  returned :: "py_exception + result"
  fs_after :: filesystem
  trace :: "event list"

definition msg_no_input :: py_str where
  "msg_no_input = [0x672A, 0x627E, 0x5230, 0x8F93, 0x5165, 0x6587, 0x4EF6]"

definition msg_parse_failed :: py_str where
  "msg_parse_failed = [0x89E3, 0x6790, 0x5931, 0x8D25]"

definition msg_success :: py_str where
  "msg_success = [0x6587, 0x4EF6, 0x89E3, 0x6790, 0x6210, 0x529F]"

definition msg_timeout :: py_str where
  "msg_timeout =
     [0x8BF7, 0x6C42, 0x8D85, 0x65F6, 0xFF0C, 0x6587, 0x4EF6, 0x53EF, 0x80FD, 0x8FC7,
      0x5927, 0x6216, 0x670D, 0x52A1, 0x5668, 0x54CD, 0x5E94, 0x7F13, 0x6162]"

definition msg_connection :: py_str where
  "msg_connection =
     [0x65E0, 0x6CD5, 0x8FDE, 0x63A5, 0x5230, 0x670D, 0x52A1, 0x5668, 0x20] @ API_BASE_URL"

definition msg_http :: "int \<Rightarrow> py_str \<Rightarrow> py_str" where
  "msg_http status_code text =
     ascii ''HTTP '' @ [0x9519, 0x8BEF] @ ascii '': '' @ str_int status_code
       @ ascii '' - '' @ text"

definition failure :: "res_value \<Rightarrow> string \<Rightarrow> result" where
  "failure err code =
     [(''success'', Val (PyBool False)), (''error'', err),
      (''error_code'', Val (PyStr (ascii code)))]"

text \<open>The request of line 76 for the input file \<open>input_file\<close> with contents \<open>f\<close>.\<close>

definition the_request :: "path \<Rightarrow> bytes \<Rightarrow> request" where
  "the_request input_file f =
     \<lparr>req_url = API_BASE_URL @ ascii ''/parse'',
      req_files = [(ascii ''file'', last input_file, f, ascii ''application/octet-stream'')],
      req_params = [(ascii ''format'', PyStr (ascii ''md'')), (ascii ''cache'', PyBool True)],
      req_timeout = 300,
      req_headers = None, req_cookies = None, req_auth = None\<rparr>"

text \<open>Lines 80 to 107: from the parsed response to the returned dictionary.\<close>

definition after_response ::
  "os_faults \<Rightarrow> filesystem \<Rightarrow> event list \<Rightarrow> path \<Rightarrow> py_value \<Rightarrow> outcome" where
  "after_response os fs tr input_file result =
     (case py_get result ''code'' PyNone of
        Inl e \<Rightarrow> \<lparr>returned = Inl e, fs_after = fs, trace = tr\<rparr>
      | Inr code \<Rightarrow>
          if \<not> py_eq_int code 200 then
            (case py_get result ''message'' (PyStr msg_parse_failed) of
               Inl e \<Rightarrow> \<lparr>returned = Inl e, fs_after = fs, trace = tr\<rparr>
             | Inr message \<Rightarrow>
                 \<lparr>returned = Inr (failure (Val message) ''PARSE_FAILED''),
                  fs_after = fs, trace = tr\<rparr>)
          else
            (case py_get result ''content'' (PyStr []) of
               Inl e \<Rightarrow> \<lparr>returned = Inl e, fs_after = fs, trace = tr\<rparr>
             | Inr content \<Rightarrow>
                 (case mkdir_exist_ok os True fs DATA_OUTPUTS of
                    (Some e, fs1) \<Rightarrow>
                      \<lparr>returned = Inl e, fs_after = fs1, trace = tr @ [Ev_mkdir DATA_OUTPUTS]\<rparr>
                  | (None, fs1) \<Rightarrow>
                      (let output_filename = stem (last input_file) @ ascii ''_parsed.md'';
                           output_path = DATA_OUTPUTS @ [output_filename];
                           tr2 = tr @ [Ev_mkdir DATA_OUTPUTS, Ev_write output_path content]
                       in case write_text os fs1 output_path content of
                            (Some e, fs2) \<Rightarrow> \<lparr>returned = Inl e, fs_after = fs2, trace = tr2\<rparr>
                          | (None, fs2) \<Rightarrow>
                              \<lparr>returned = Inr
                                 [(''success'', Val (PyBool True)),
                                  (''message'', Val (PyStr msg_success)),
                                  (''content'', Val content),
                                  (''input_file'', Val (PyStr (last input_file))),
                                  (''output_file'', Val (PyStr output_filename))],
                               fs_after = fs2, trace = tr2\<rparr>))))"

text \<open>
  The body of the \<open>try\<close> statement, lines 52 to 107. \<open>returned\<close> is \<open>Inl e\<close> when the body
  raises \<open>e\<close>.
\<close>

definition try_body :: "os_faults \<Rightarrow> filesystem \<Rightarrow> network \<Rightarrow> outcome" where
  "try_body os fs net =
     (case glob_star fs DATA_INPUTS of
        [] \<Rightarrow>
          \<lparr>returned = Inr (failure (Val (PyStr msg_no_input)) ''NO_INPUT_FILE''),
           fs_after = fs, trace = [Ev_glob DATA_INPUTS]\<rparr>
      | input_file # _ \<Rightarrow>
          (case open_rb fs input_file of
             Inl e \<Rightarrow>
               \<lparr>returned = Inl e, fs_after = fs,
                trace = [Ev_glob DATA_INPUTS, Ev_open input_file]\<rparr>
           | Inr f \<Rightarrow>
               (let tr = [Ev_glob DATA_INPUTS, Ev_open input_file,
                          Ev_post (the_request input_file f)]
                in case net (the_request input_file f) of
                     Inl e \<Rightarrow> \<lparr>returned = Inl e, fs_after = fs, trace = tr\<rparr>
                   | Inr response \<Rightarrow>
                       (case raise_for_status response of
                          Some e \<Rightarrow> \<lparr>returned = Inl e, fs_after = fs, trace = tr\<rparr>
                        | None \<Rightarrow>
                            (case json response of
                               Inl e \<Rightarrow> \<lparr>returned = Inl e, fs_after = fs, trace = tr\<rparr>
                             | Inr result \<Rightarrow> after_response os fs tr input_file result)))))"

text \<open>
  The \<open>except\<close> clauses, lines 109 to 135, in their order: the first clause whose class
  the exception is an instance of handles it. An exception that is no \<open>Exception\<close>
  passes through, and the \<open>HTTPError\<close> clause raises \<open>AttributeError\<close> itself when the
  exception has no response; \<open>Inl\<close> is what \<open>parse_file\<close> then raises.
\<close>

definition except_clauses :: "py_exception \<Rightarrow> py_exception + result" where
  "except_clauses e =
     (if isinstance e Req_Timeout then
        Inr (failure (Val (PyStr msg_timeout)) ''TIMEOUT'')
      else if isinstance e Req_ConnectionError then
        Inr (failure (Val (PyStr msg_connection)) ''CONNECTION_ERROR'')
      else if isinstance e Req_HTTPError then
        (case exc_response e of
           None \<Rightarrow> Inl (AttributeError ''NoneType'' ''status_code'')
         | Some (status_code, text) \<Rightarrow>
             Inr (failure (Val (PyStr (msg_http status_code text))) ''HTTP_ERROR''))
      else if isinstance e Py_Exception then
        Inr (failure (Str_of e) ''UNEXPECTED_ERROR'')
      else Inl e)"

definition parse_file :: "os_faults \<Rightarrow> filesystem \<Rightarrow> network \<Rightarrow> outcome" where
  "parse_file os fs net =
     (let body = try_body os fs net
      in case returned body of
           Inl e \<Rightarrow> body\<lparr>returned := except_clauses e\<rparr>
         | Inr r \<Rightarrow> body)"

section \<open>Reading an outcome\<close>

text \<open>The requests sent, the files opened and the changes made during a call.\<close>

fun posts :: "event list \<Rightarrow> request list" where
  "posts [] = []"
| "posts (Ev_post r # es) = r # posts es"
| "posts (_ # es) = posts es"

fun opened :: "event list \<Rightarrow> path list" where
  "opened [] = []"
| "opened (Ev_open p # es) = p # opened es"
| "opened (_ # es) = opened es"

fun changes :: "event list \<Rightarrow> event list" where
  "changes [] = []"
| "changes (Ev_mkdir p # es) = Ev_mkdir p # changes es"
| "changes (Ev_write p v # es) = Ev_write p v # changes es"
| "changes (_ # es) = changes es"

text \<open>
  The call returned a dictionary with \<open>success\<close> \<open>False\<close>, the given \<open>error_code\<close> and
  the given \<open>error\<close>.
\<close>

definition fails_with :: "outcome \<Rightarrow> string \<Rightarrow> res_value \<Rightarrow> bool" where
  "fails_with out code err =
     (case returned out of
        Inl _ \<Rightarrow> False
      | Inr r \<Rightarrow>
          map_of r ''success'' = Some (Val (PyBool False))
          \<and> map_of r ''error'' = Some err
          \<and> map_of r ''error_code'' = Some (Val (PyStr (ascii code))))"

text \<open>
  An exception that only the last clause, \<open>except Exception\<close>, catches: every exception
  the filesystem and the built-in operations raise is one.
\<close>

definition plain :: "py_exception \<Rightarrow> bool" where
  "plain e =
     (isinstance e Py_Exception \<and> \<not> isinstance e Req_Timeout
      \<and> \<not> isinstance e Req_ConnectionError \<and> \<not> isinstance e Req_HTTPError)"

text \<open>
  An exception that some clause catches without raising: an \<open>Exception\<close>, and with its
  response when it is an \<open>HTTPError\<close>.
\<close>

definition catchable :: "py_exception \<Rightarrow> bool" where
  "catchable e =
     (isinstance e Py_Exception
      \<and> (if isinstance e Req_HTTPError then exc_response e \<noteq> None else True))"

text \<open>What a path is: nothing, a regular file or a directory.\<close>

datatype kind = Absent | Regular | Directory

fun node_kind :: "node option \<Rightarrow> kind" where
  "node_kind None = Absent"
| "node_kind (Some (File _)) = Regular"
| "node_kind (Some (Dir _)) = Directory"

definition output_path :: "path \<Rightarrow> path" where
  "output_path input_file = DATA_OUTPUTS @ [stem (last input_file) @ ascii ''_parsed.md'']"

text \<open>
  What lines 94 to 99 raise when they are run for the input file \<open>input_file\<close> and the
  content \<open>content\<close>: the exception of \<open>mkdir\<close>, or else the one of \<open>write_text\<close>, or
  nothing.
\<close>

definition output_obstacle ::
  "os_faults \<Rightarrow> filesystem \<Rightarrow> path \<Rightarrow> py_value \<Rightarrow> py_exception option" where
  "output_obstacle os fs input_file content =
     (case mkdir_exist_ok os True fs DATA_OUTPUTS of
        (Some e, fs1) \<Rightarrow> Some e
      | (None, fs1) \<Rightarrow> fst (write_text os fs1 (output_path input_file) content))"

text \<open>
  A returned dictionary is well formed when \<open>success\<close> is \<open>True\<close>, or \<open>success\<close> is \<open>False\<close>
  and there are an \<open>error\<close> and an \<open>error_code\<close>.
\<close>

definition well_formed_result :: "result \<Rightarrow> bool" where
  "well_formed_result r =
     (map_of r ''success'' = Some (Val (PyBool True))
      \<or> map_of r ''success'' = Some (Val (PyBool False))
        \<and> map_of r ''error'' \<noteq> None \<and> map_of r ''error_code'' \<noteq> None)"

section \<open>Example environments\<close>

text \<open>
  \<open>fs_input\<close> holds one file, \<open>data/inputs/input/test.pdf\<close>; \<open>fs_fixture\<close> is the layout
  the test fixture builds, with \<open>test.pdf\<close> directly in \<open>data/inputs\<close>; \<open>fs_several\<close> has
  three entries in the input directory; \<open>fs_blocked\<close> is \<open>fs_input\<close> with a regular file
  in the place of \<open>data/outputs\<close>; \<open>fs_empty\<close> has nothing.
\<close>

definition pdf_bytes :: bytes where
  "pdf_bytes = [0x25, 0x50, 0x44, 0x46]"

definition test_pdf :: path where
  "test_pdf = DATA_INPUTS @ [ascii ''test.pdf'']"


definition fs_input :: filesystem where
  "fs_input =
     [[ascii ''data''] \<mapsto> Dir [ascii ''inputs''],
      [ascii ''data'', ascii ''inputs''] \<mapsto> Dir [ascii ''input''],
      DATA_INPUTS \<mapsto> Dir [ascii ''test.pdf''],
      test_pdf \<mapsto> File pdf_bytes]"



definition fs_blocked :: filesystem where
  "fs_blocked =
     fs_input([ascii ''data''] \<mapsto> Dir [ascii ''inputs'', ascii ''outputs''],
              DATA_OUTPUTS \<mapsto> File [])"

text \<open>
  Responses: the one of the success test, one with \<open>code\<close> 500, one with \<open>code\<close> 200 and
  no \<open>content\<close>, and one whose \<open>raise_for_status\<close> raises the \<open>HTTPError\<close> of a 404.
\<close>

definition resp_ok :: response where
  "resp_ok =
     \<lparr>raise_for_status = None,
      json = Inr (PyDict [(ascii ''code'', PyInt 200),
                          (ascii ''message'', PyStr (ascii ''success'')),
                          (ascii ''content'', PyStr (ascii ''# Test Document''))])\<rparr>"

definition resp_500 :: response where
  "resp_500 =
     \<lparr>raise_for_status = None,
      json = Inr (PyDict [(ascii ''code'', PyInt 500),
                          (ascii ''message'', PyStr (ascii ''Internal server error''))])\<rparr>"

definition resp_no_content :: response where
  "resp_no_content =
     \<lparr>raise_for_status = None, json = Inr (PyDict [(ascii ''code'', PyInt 200)])\<rparr>"

definition requests_mro :: "py_class list" where
  "requests_mro =
     [Other_Class ''RequestException'', Other_Class ''OSError'', Py_Exception, Py_BaseException]"

definition http_error_404 :: py_exception where
  "http_error_404 =
     \<lparr>exc_mro = Req_HTTPError # requests_mro, exc_args = [],
      exc_response = Some (404, ascii ''Not Found'')\<rparr>"

definition resp_404 :: response where
  "resp_404 = \<lparr>raise_for_status = Some http_error_404, json = Inr PyNone\<rparr>"

text \<open>
  Exceptions: \<open>requests.exceptions.ReadTimeout\<close>, \<open>ConnectTimeout\<close> (a subclass of both
  \<open>ConnectionError\<close> and \<open>Timeout\<close>) and \<open>ConnectionError\<close>, the built-in \<open>ValueError\<close>,
  and \<open>KeyboardInterrupt\<close>, which derives from \<open>BaseException\<close> only.
\<close>

definition read_timeout :: py_exception where
  "read_timeout =
     \<lparr>exc_mro = Other_Class ''ReadTimeout'' # Req_Timeout # requests_mro, exc_args = [],
      exc_response = None\<rparr>"

definition connect_timeout :: py_exception where
  "connect_timeout =
     \<lparr>exc_mro = Other_Class ''ConnectTimeout'' # Req_ConnectionError # Req_Timeout # requests_mro,
      exc_args = [], exc_response = None\<rparr>"

definition connection_error :: py_exception where
  "connection_error =
     \<lparr>exc_mro = Req_ConnectionError # requests_mro, exc_args = [], exc_response = None\<rparr>"

definition value_error :: py_exception where
  "value_error = builtin_error [''ValueError''] []"

definition keyboard_interrupt :: py_exception where
  "keyboard_interrupt =
     \<lparr>exc_mro = [Other_Class ''KeyboardInterrupt'', Py_BaseException], exc_args = [],
      exc_response = None\<rparr>"

definition net_returns :: "response \<Rightarrow> network" where
  "net_returns resp = (\<lambda>req. Inr resp)"

definition net_raises :: "py_exception \<Rightarrow> network" where
  "net_raises e = (\<lambda>req. Inl e)"


text \<open>
  An operating system that refuses nothing, and one on which
  \<open>data/outputs/test_parsed.md\<close> may not be opened for writing (\<open>PermissionError\<close>,
  \<open>EACCES\<close>).
\<close>

definition no_faults :: os_faults where
  "no_faults = \<lparr>mkdir_fault = (\<lambda>p. None), open_fault = (\<lambda>p. None), write_fault = (\<lambda>p. None)\<rparr>"

definition permission_denied :: os_fault where
  "permission_denied = ([''PermissionError''], 13, ''Permission denied'')"

definition os_denied :: os_faults where
  "os_denied =
     no_faults\<lparr>open_fault :=
       (\<lambda>p. if p = DATA_OUTPUTS @ [ascii ''test_parsed.md''] then Some permission_denied
            else None)\<rparr>"

text \<open>
  An operating system whose file names hold at most 255 bytes, as on Linux: making or
  opening a path with a longer last component fails with \<open>OSError\<close>, \<open>ENAMETOOLONG\<close>.
  \<open>fs_long_name\<close> has one input file, whose name of 255 bytes the system accepts; the
  name of its output file is 6 bytes longer.
\<close>

definition name_too_long :: "path \<Rightarrow> os_fault option" where
  "name_too_long p =
     (if p \<noteq> [] \<and> 255 < length (utf8_encode (last p))
      then Some ([], 36, ''File name too long'') else None)"

definition os_name_max :: os_faults where
  "os_name_max =
     \<lparr>mkdir_fault = name_too_long, open_fault = name_too_long, write_fault = (\<lambda>p. None)\<rparr>"

definition long_name :: py_str where
  "long_name = replicate 251 97 @ ascii ''.pdf''"

definition fs_long_name :: filesystem where
  "fs_long_name =
     [[ascii ''data''] \<mapsto> Dir [ascii ''inputs''],
      [ascii ''data'', ascii ''inputs''] \<mapsto> Dir [ascii ''input''],
      DATA_INPUTS \<mapsto> Dir [long_name],
      DATA_INPUTS @ [long_name] \<mapsto> File pdf_bytes]"

text \<open>
  More responses: one whose \<open>content\<close> is \<open>null\<close>, one whose \<open>content\<close> is a lone
  surrogate (the code point D800), and one whose body is no JSON, so that \<open>json()\<close>
  raises \<open>requests.exceptions.JSONDecodeError\<close>.
\<close>

definition resp_null_content :: response where
  "resp_null_content =
     \<lparr>raise_for_status = None,
      json = Inr (PyDict [(ascii ''code'', PyInt 200), (ascii ''content'', PyNone)])\<rparr>"

definition resp_surrogate :: response where
  "resp_surrogate =
     \<lparr>raise_for_status = None,
      json = Inr (PyDict [(ascii ''code'', PyInt 200), (ascii ''content'', PyStr [0xD800])])\<rparr>"

definition json_decode_error :: py_exception where
  "json_decode_error =
     \<lparr>exc_mro = [Other_Class ''JSONDecodeError'', Other_Class ''InvalidJSONError'',
                 Other_Class ''RequestException'', Other_Class ''OSError'',
                 Other_Class ''ValueError'', Py_Exception, Py_BaseException],
      exc_args = [], exc_response = None\<rparr>"

definition resp_not_json :: response where
  "resp_not_json = \<lparr>raise_for_status = None, json = Inl json_decode_error\<rparr>"

section \<open>Exceptions of the filesystem and the built-in operations\<close>

lemma plain_builtin_error: "plain (builtin_error cs args)"
  by (auto simp: plain_def isinstance_def builtin_error_def)

lemma plain_os_error: "plain (os_error c n s p)"
  by (simp add: os_error_def plain_builtin_error)

lemma plain_fault_error: "plain (fault_error flt p)"
  by (cases flt) (simp add: fault_error_def plain_os_error)

lemma plain_errors:
  "plain (FileNotFoundError p)" "plain (FileExistsError p)" "plain (NotADirectoryError p)"
  "plain (IsADirectoryError p)" "plain (TypeError m)" "plain (AttributeError t a)"
  "plain (UnicodeEncodeError s)"
  by (simp_all add: FileNotFoundError_def FileExistsError_def NotADirectoryError_def
      IsADirectoryError_def TypeError_def AttributeError_def UnicodeEncodeError_def Let_def
      plain_os_error plain_builtin_error)

lemma except_clauses_plain:
  "plain e \<Longrightarrow> except_clauses e = Inr (failure (Str_of e) ''UNEXPECTED_ERROR'')"
  by (simp add: except_clauses_def plain_def)

lemma isinstance_not_found:
  "isinstance (FileNotFoundError p) (Other_Class ''FileNotFoundError'')"
  "\<not> isinstance (FileExistsError p) (Other_Class ''FileNotFoundError'')"
  "\<not> isinstance (NotADirectoryError p) (Other_Class ''FileNotFoundError'')"
  by (simp_all add: isinstance_def FileNotFoundError_def FileExistsError_def
      NotADirectoryError_def os_error_def builtin_error_def)

lemma os_mkdir_plain: "os_mkdir os fs p = Inl e \<Longrightarrow> plain e"
  by (auto simp: os_mkdir_def plain_errors plain_fault_error split: if_splits option.splits)

declare mkdir_exist_ok.simps [simp del]

lemma mkdir_exist_ok_plain: "mkdir_exist_ok os parents fs p = (Some e, fs') \<Longrightarrow> plain e"
proof (induction os parents fs p arbitrary: e fs' rule: mkdir_exist_ok.induct)
  case (1 os parents fs p)
  show ?case
  proof (cases "os_mkdir os fs p")
    case (Inr fs1)
    with "1.prems" show ?thesis by (simp add: mkdir_exist_ok.simps [of os parents fs p])
  next
    case (Inl e0)
    note e0 = this
    show ?thesis
    proof (cases "isinstance e0 (Other_Class ''FileNotFoundError'')")
      case False
      with e0 "1.prems" have "e = e0"
        by (simp add: mkdir_exist_ok.simps [of os parents fs p] split: if_splits)
      with e0 show ?thesis by (simp add: os_mkdir_plain)
    next
      case True
      show ?thesis
      proof (cases "\<not> parents \<or> p = []")
        case True
        with e0 \<open>isinstance e0 _\<close> "1.prems" have "e = e0"
          by (simp add: mkdir_exist_ok.simps [of os parents fs p])
        with e0 show ?thesis by (simp add: os_mkdir_plain)
      next
        case False
        from e0 True False have unfold:
          "mkdir_exist_ok os parents fs p =
             (case mkdir_exist_ok os True fs (butlast p) of
                (Some e', fs') \<Rightarrow> (Some e', fs')
              | (None, fs') \<Rightarrow> mkdir_exist_ok os False fs' p)"
          by (subst mkdir_exist_ok.simps) simp
        obtain r fs1 where up: "mkdir_exist_ok os True fs (butlast p) = (r, fs1)"
          by (cases "mkdir_exist_ok os True fs (butlast p)")
        show ?thesis
        proof (cases r)
          case None
          with unfold up "1.prems" have "mkdir_exist_ok os False fs1 p = (Some e, fs')"
            by simp
          with "1.IH"(2) [OF e0 True False _ _ this] up None show ?thesis by simp
        next
          case (Some e1)
          with unfold up "1.prems" have "e = e1"
            by simp
          with "1.IH"(1) [OF e0 True False] up Some show ?thesis by simp
        qed
      qed
    qed
  qed
qed


lemma butlast_outputs: "butlast DATA_OUTPUTS = [ascii ''data'']" "DATA_OUTPUTS \<noteq> []"
  "DATA_OUTPUTS \<noteq> [ascii ''data'']" "[ascii ''data''] \<noteq> DATA_OUTPUTS"
  by (simp_all add: DATA_OUTPUTS_def)

lemma mkdir_outputs:
  assumes "mkdir_fault os DATA_OUTPUTS = None" "mkdir_fault os [ascii ''data''] = None"
  shows "mkdir_exist_ok os True fs DATA_OUTPUTS =
     (case fs DATA_OUTPUTS of
        Some (Dir _) \<Rightarrow> (None, fs)
      | Some (File _) \<Rightarrow> (Some (FileExistsError DATA_OUTPUTS), fs)
      | None \<Rightarrow>
          (case fs [ascii ''data''] of
             Some (Dir _) \<Rightarrow> (None, add_entry fs DATA_OUTPUTS (Dir []))
           | Some (File _) \<Rightarrow> (Some (NotADirectoryError DATA_OUTPUTS), fs)
           | None \<Rightarrow>
               (None, add_entry (add_entry fs [ascii ''data''] (Dir [])) DATA_OUTPUTS (Dir []))))"
proof (cases "fs DATA_OUTPUTS")
  case (Some n)
  then show ?thesis
    by (cases n)
       (simp_all add: mkdir_exist_ok.simps [of os True fs DATA_OUTPUTS] os_mkdir_def
          path_exists_def is_dir_def isinstance_not_found butlast_outputs)
next
  case None
  note out = this
  show ?thesis
  proof (cases "fs [ascii ''data'']")
    case (Some n)
    with out assms show ?thesis
      by (cases n)
         (simp_all add: mkdir_exist_ok.simps [of os True fs DATA_OUTPUTS] os_mkdir_def
            path_exists_def is_dir_def isinstance_not_found butlast_outputs)
  next
    case None
    let ?fs1 = "add_entry fs [ascii ''data''] (Dir [])"
    have up: "mkdir_exist_ok os True fs [ascii ''data''] = (None, ?fs1)"
      using None assms
      by (simp add: mkdir_exist_ok.simps [of os True fs "[ascii ''data'']"] os_mkdir_def
            path_exists_def is_dir_def)
    have fs1: "?fs1 DATA_OUTPUTS = None" "\<exists>ns. ?fs1 [ascii ''data''] = Some (Dir ns)"
      using out None by (auto simp: add_entry_def butlast_outputs split: option.splits node.splits)
    with assms have down: "mkdir_exist_ok os False ?fs1 DATA_OUTPUTS = (None, add_entry ?fs1 DATA_OUTPUTS (Dir []))"
      by (auto simp: mkdir_exist_ok.simps [of os False ?fs1 DATA_OUTPUTS] os_mkdir_def
            path_exists_def is_dir_def butlast_outputs)
    show ?thesis
      using out None up down
      by (simp add: mkdir_exist_ok.simps [of os True fs DATA_OUTPUTS] os_mkdir_def
            path_exists_def is_dir_def isinstance_not_found butlast_outputs)
  qed
qed

lemma open_rb_plain: "open_rb fs p = Inl e \<Longrightarrow> plain e"
  by (auto simp: open_rb_def plain_errors split: option.splits node.splits)

lemma py_get_plain: "py_get v k d = Inl e \<Longrightarrow> plain e"
  by (auto simp: py_get_def plain_errors split: py_value.splits)

lemma py_get_dict:
  "py_get (PyDict items) k d = Inr (case map_of items (ascii k) of None \<Rightarrow> d | Some x \<Rightarrow> x)"
  by (simp add: py_get_def)

lemma open_w_plain: "open_w os fs p = Inl e \<Longrightarrow> plain e"
  by (auto simp: open_w_def plain_errors plain_fault_error
      split: option.splits node.splits if_splits)

lemma write_text_plain: "write_text os fs p v = (Some e, fs') \<Longrightarrow> plain e"
  by (auto simp: write_text_def plain_errors plain_fault_error open_w_plain
      split: py_value.splits sum.splits if_splits option.splits)

section \<open>The shapes of a run\<close>

lemma parse_file_trace: "trace (parse_file os fs net) = trace (try_body os fs net)"
  by (simp add: parse_file_def Let_def split: sum.splits)

lemma parse_file_fs_after: "fs_after (parse_file os fs net) = fs_after (try_body os fs net)"
  by (simp add: parse_file_def Let_def split: sum.splits)

lemma parse_file_returned:
  "returned (parse_file os fs net) =
     (case returned (try_body os fs net) of Inl e \<Rightarrow> except_clauses e | Inr r \<Rightarrow> Inr r)"
  by (simp add: parse_file_def Let_def split: sum.splits)

lemma after_response_cases:
  obtains
    (not_dict) e where "plain e"
      "after_response os fs tr p v = \<lparr>returned = Inl e, fs_after = fs, trace = tr\<rparr>"
  | (parse_failed) items where "v = PyDict items"
      "\<not> py_eq_int (case map_of items (ascii ''code'') of None \<Rightarrow> PyNone | Some x \<Rightarrow> x) 200"
      "after_response os fs tr p v =
         \<lparr>returned = Inr (failure
             (Val (case map_of items (ascii ''message'') of
                     None \<Rightarrow> PyStr msg_parse_failed | Some x \<Rightarrow> x)) ''PARSE_FAILED''),
          fs_after = fs, trace = tr\<rparr>"
  | (mkdir_failed) e fs1 where "plain e"
      "mkdir_exist_ok os True fs DATA_OUTPUTS = (Some e, fs1)"
      "after_response os fs tr p v =
         \<lparr>returned = Inl e, fs_after = fs1, trace = tr @ [Ev_mkdir DATA_OUTPUTS]\<rparr>"
  | (write_failed) items e fs1 fs2 where "plain e" "v = PyDict items"
      "mkdir_exist_ok os True fs DATA_OUTPUTS = (None, fs1)"
      "after_response os fs tr p v =
         \<lparr>returned = Inl e, fs_after = fs2,
          trace = tr @ [Ev_mkdir DATA_OUTPUTS,
                        Ev_write (output_path p)
                          (case map_of items (ascii ''content'') of
                             None \<Rightarrow> PyStr [] | Some x \<Rightarrow> x)]\<rparr>"
  | (written) items content fs1 fs2 where "v = PyDict items"
      "py_eq_int (case map_of items (ascii ''code'') of None \<Rightarrow> PyNone | Some x \<Rightarrow> x) 200"
      "content = (case map_of items (ascii ''content'') of None \<Rightarrow> PyStr [] | Some x \<Rightarrow> x)"
      "mkdir_exist_ok os True fs DATA_OUTPUTS = (None, fs1)"
      "write_text os fs1 (output_path p) content = (None, fs2)"
      "after_response os fs tr p v =
         \<lparr>returned = Inr
            [(''success'', Val (PyBool True)),
             (''message'', Val (PyStr msg_success)),
             (''content'', Val content),
             (''input_file'', Val (PyStr (last p))),
             (''output_file'', Val (PyStr (stem (last p) @ ascii ''_parsed.md'')))],
          fs_after = fs2,
          trace = tr @ [Ev_mkdir DATA_OUTPUTS, Ev_write (output_path p) content]\<rparr>"
proof (cases "\<exists>items. v = PyDict items")
  case False
  then have "py_get v ''code'' PyNone = Inl (AttributeError (type_name v) ''get'')"
    by (cases v) (simp_all add: py_get_def)
  then have "after_response os fs tr p v =
      \<lparr>returned = Inl (AttributeError (type_name v) ''get''), fs_after = fs, trace = tr\<rparr>"
    by (simp add: after_response_def)
  with not_dict plain_errors(6) show ?thesis by blast
next
  case True
  then obtain items where v: "v = PyDict items" by blast
  let ?code = "case map_of items (ascii ''code'') of None \<Rightarrow> PyNone | Some x \<Rightarrow> x"
  let ?content = "case map_of items (ascii ''content'') of None \<Rightarrow> PyStr [] | Some x \<Rightarrow> x"
  show ?thesis
  proof (cases "py_eq_int ?code 200")
    case False
    with v parse_failed show ?thesis
      by (simp add: after_response_def py_get_dict)
  next
    case True
    note ok = this
    obtain r fs1 where mk: "mkdir_exist_ok os True fs DATA_OUTPUTS = (r, fs1)"
      by (cases "mkdir_exist_ok os True fs DATA_OUTPUTS")
    show ?thesis
    proof (cases r)
      case (Some e)
      with mk have "plain e" by (simp add: mkdir_exist_ok_plain)
      moreover from v ok mk Some have "after_response os fs tr p v =
         \<lparr>returned = Inl e, fs_after = fs1, trace = tr @ [Ev_mkdir DATA_OUTPUTS]\<rparr>"
        by (simp add: after_response_def py_get_dict)
      ultimately show ?thesis using mkdir_failed mk Some by blast
    next
      case None
      obtain w fs2 where wr: "write_text os fs1 (output_path p) ?content = (w, fs2)"
        by (cases "write_text os fs1 (output_path p) ?content")
      show ?thesis
      proof (cases w)
        case (Some e)
        with wr have "plain e" by (simp add: write_text_plain)
        moreover from v ok mk None wr Some have "after_response os fs tr p v =
           \<lparr>returned = Inl e, fs_after = fs2,
            trace = tr @ [Ev_mkdir DATA_OUTPUTS, Ev_write (output_path p) ?content]\<rparr>"
          by (simp add: after_response_def py_get_dict output_path_def Let_def)
        ultimately show ?thesis using write_failed v mk None by blast
      next
        case w_ok: None
        from v ok mk None wr w_ok have "after_response os fs tr p v =
           \<lparr>returned = Inr
              [(''success'', Val (PyBool True)),
               (''message'', Val (PyStr msg_success)),
               (''content'', Val ?content),
               (''input_file'', Val (PyStr (last p))),
               (''output_file'', Val (PyStr (stem (last p) @ ascii ''_parsed.md'')))],
            fs_after = fs2,
            trace = tr @ [Ev_mkdir DATA_OUTPUTS, Ev_write (output_path p) ?content]\<rparr>"
          by (simp add: after_response_def py_get_dict output_path_def Let_def)
        with written [OF v ok refl] mk None wr w_ok show ?thesis by blast
      qed
    qed
  qed
qed


lemma try_body_cases:
  obtains
    (no_input) "glob_star fs DATA_INPUTS = []"
      "try_body os fs net =
         \<lparr>returned = Inr (failure (Val (PyStr msg_no_input)) ''NO_INPUT_FILE''),
          fs_after = fs, trace = [Ev_glob DATA_INPUTS]\<rparr>"
  | (open_failed) p ps e where "glob_star fs DATA_INPUTS = p # ps" "open_rb fs p = Inl e"
      "try_body os fs net =
         \<lparr>returned = Inl e, fs_after = fs, trace = [Ev_glob DATA_INPUTS, Ev_open p]\<rparr>"
  | (request_failed) p ps f e where "glob_star fs DATA_INPUTS = p # ps" "open_rb fs p = Inr f"
      "net (the_request p f) = Inl e
       \<or> (\<exists>resp. net (the_request p f) = Inr resp
             \<and> (raise_for_status resp = Some e
                  \<or> raise_for_status resp = None \<and> json resp = Inl e))"
      "try_body os fs net =
         \<lparr>returned = Inl e, fs_after = fs,
          trace = [Ev_glob DATA_INPUTS, Ev_open p, Ev_post (the_request p f)]\<rparr>"
  | (responded) p ps f resp v where "glob_star fs DATA_INPUTS = p # ps" "open_rb fs p = Inr f"
      "net (the_request p f) = Inr resp" "raise_for_status resp = None" "json resp = Inr v"
      "try_body os fs net =
         after_response os fs [Ev_glob DATA_INPUTS, Ev_open p, Ev_post (the_request p f)] p v"
proof (cases "glob_star fs DATA_INPUTS")
  case Nil
  with no_input show ?thesis by (simp add: try_body_def)
next
  case (Cons p ps)
  note g = this
  show ?thesis
  proof (cases "open_rb fs p")
    case (Inl e)
    with g open_failed show ?thesis by (simp add: try_body_def)
  next
    case (Inr f)
    note f = this
    show ?thesis
    proof (cases "net (the_request p f)")
      case (Inl e)
      with g f request_failed [of p ps f e] show ?thesis by (simp add: try_body_def)
    next
      case (Inr resp)
      note resp = this
      show ?thesis
      proof (cases "raise_for_status resp")
        case (Some e)
        with g f resp request_failed [of p ps f e] show ?thesis by (simp add: try_body_def)
      next
        case None
        show ?thesis
        proof (cases "json resp")
          case (Inl e)
          with g f resp None request_failed [of p ps f e] show ?thesis
            by (simp add: try_body_def)
        next
          case (Inr v)
          with g f resp None responded [of p ps f resp v] show ?thesis
            by (simp add: try_body_def)
        qed
      qed
    qed
  qed
qed

lemma posts_append: "posts (xs @ ys) = posts xs @ posts ys"
  by (induction xs rule: posts.induct) simp_all


lemma changes_append: "changes (xs @ ys) = changes xs @ changes ys"
  by (induction xs rule: changes.induct) simp_all

lemma posts_after_response: "posts (trace (after_response os fs tr p v)) = posts tr"
  by (cases rule: after_response_cases [of os fs tr p v]) (simp_all add: posts_append)


lemma posts_parse_file:
  "posts (trace (parse_file os fs net)) =
     (case glob_star fs DATA_INPUTS of
        [] \<Rightarrow> []
      | p # ps \<Rightarrow> (case open_rb fs p of Inl e \<Rightarrow> [] | Inr f \<Rightarrow> [the_request p f]))"
  by (cases rule: try_body_cases [where os = os and fs = fs and net = net])
     (simp_all add: parse_file_trace posts_after_response)


lemma url_parse: "API_BASE_URL @ ascii ''/parse'' = ascii ''http://10.0.0.111:31475/parse''"
  by (simp add: API_BASE_URL_def ascii_def)

lemma failure_fields:
  "map_of (failure err code) ''success'' = Some (Val (PyBool False))"
  "map_of (failure err code) ''error'' = Some err"
  "map_of (failure err code) ''error_code'' = Some (Val (PyStr (ascii code)))"
  by (simp_all add: failure_def)

lemma fails_with_failure:
  "returned out = Inr (failure err code) \<Longrightarrow> fails_with out code err"
  by (simp add: fails_with_def failure_fields)

section \<open>The example environments, evaluated\<close>


lemma fs_input_eval:
  "glob_star fs_input DATA_INPUTS = [test_pdf]"
  "fs_input test_pdf = Some (File pdf_bytes)"
  "open_rb fs_input test_pdf = Inr pdf_bytes"
  "fs_input DATA_OUTPUTS = None"
  "fs_input [ascii ''data''] = Some (Dir [ascii ''inputs''])"
  by (simp_all add: fs_input_def glob_star_def open_rb_def test_pdf_def DATA_INPUTS_def
      DATA_OUTPUTS_def ascii_def)

lemma unexpected_distinct:
  "ascii ''UNEXPECTED_ERROR'' \<noteq> ascii ''NO_INPUT_FILE''"
  "ascii ''UNEXPECTED_ERROR'' \<noteq> ascii ''TIMEOUT''"
  "ascii ''UNEXPECTED_ERROR'' \<noteq> ascii ''CONNECTION_ERROR''"
  "ascii ''UNEXPECTED_ERROR'' \<noteq> ascii ''HTTP_ERROR''"
  "ascii ''UNEXPECTED_ERROR'' \<noteq> ascii ''PARSE_FAILED''"
  by (simp_all add: ascii_def)

lemma unexpected_is_no_early_code:
  assumes "code \<in> {''NO_INPUT_FILE'', ''TIMEOUT'', ''CONNECTION_ERROR'', ''HTTP_ERROR'', ''PARSE_FAILED''}"
  shows "ascii ''UNEXPECTED_ERROR'' \<noteq> ascii code"
  using assms by (elim insertE emptyE) (simp_all only: unexpected_distinct not_False_eq_True)

lemma plain_not_early:
  assumes "plain e" "returned (try_body os fs net) = Inl e"
    "code \<in> {''NO_INPUT_FILE'', ''TIMEOUT'', ''CONNECTION_ERROR'', ''HTTP_ERROR'', ''PARSE_FAILED''}"
  shows "\<not> fails_with (parse_file os fs net) code err"
  using assms(1,2) unexpected_is_no_early_code [OF assms(3)]
  by (simp add: fails_with_def parse_file_returned except_clauses_plain failure_fields)

lemma except_clauses_eval:
  "except_clauses read_timeout = Inr (failure (Val (PyStr msg_timeout)) ''TIMEOUT'')"
  "except_clauses connect_timeout = Inr (failure (Val (PyStr msg_timeout)) ''TIMEOUT'')"
  "except_clauses connection_error = Inr (failure (Val (PyStr msg_connection)) ''CONNECTION_ERROR'')"
  "except_clauses http_error_404 =
     Inr (failure (Val (PyStr (msg_http 404 (ascii ''Not Found'')))) ''HTTP_ERROR'')"
  "except_clauses value_error = Inr (failure (Str_of value_error) ''UNEXPECTED_ERROR'')"
  "except_clauses keyboard_interrupt = Inl keyboard_interrupt"
  by (simp_all add: except_clauses_def isinstance_def read_timeout_def connect_timeout_def
      connection_error_def http_error_404_def value_error_def keyboard_interrupt_def
      requests_mro_def builtin_error_def)

lemma parse_file_raises:
  assumes "glob_star fs DATA_INPUTS = p # ps" "open_rb fs p = Inr f"
    "net (the_request p f) = Inl e"
  shows "parse_file os fs net =
    \<lparr>returned = except_clauses e, fs_after = fs,
     trace = [Ev_glob DATA_INPUTS, Ev_open p, Ev_post (the_request p f)]\<rparr>"
  using assms by (simp add: parse_file_def try_body_def)

lemma parse_file_status_raises:
  assumes "glob_star fs DATA_INPUTS = p # ps" "open_rb fs p = Inr f"
    "net (the_request p f) = Inr resp" "raise_for_status resp = Some e"
  shows "parse_file os fs net =
    \<lparr>returned = except_clauses e, fs_after = fs,
     trace = [Ev_glob DATA_INPUTS, Ev_open p, Ev_post (the_request p f)]\<rparr>"
  using assms by (simp add: parse_file_def try_body_def)

lemma output_path_facts:
  "butlast (output_path p) = DATA_OUTPUTS" "output_path p \<noteq> DATA_OUTPUTS"
  "DATA_OUTPUTS \<noteq> output_path p" "output_path p \<noteq> [ascii ''data'']"
  "output_path p \<noteq> []"
  by (simp_all add: output_path_def DATA_OUTPUTS_def)

lemma add_entry_other:
  "q \<noteq> p \<Longrightarrow> q \<noteq> butlast p \<Longrightarrow> add_entry fs p n q = fs q"
  by (simp add: add_entry_def split: option.splits node.splits)

lemma add_entry_self: "add_entry fs p n p = Some n"
  by (simp add: add_entry_def split: option.splits node.splits)

lemma output_path_not_cwd: "output_path p \<noteq> butlast [ascii ''data'']"
  by (simp add: output_path_def)

lemma is_dir_kind: "p \<noteq> [] \<Longrightarrow> is_dir fs p \<longleftrightarrow> node_kind (fs p) = Directory"
  by (cases "fs p" rule: node_kind.cases) (simp_all add: is_dir_def)

lemma os_mkdir_made: "os_mkdir os fs p = Inr fs' \<Longrightarrow> fs' = add_entry fs p (Dir [])"
  by (auto simp: os_mkdir_def split: if_splits option.splits)

lemma mkdir_exist_ok_is_dir: "mkdir_exist_ok os parents fs p = (None, fs') \<Longrightarrow> is_dir fs' p"
proof (induction os parents fs p arbitrary: fs' rule: mkdir_exist_ok.induct)
  case (1 os parents fs p)
  show ?case
  proof (cases "os_mkdir os fs p")
    case (Inr fs1)
    with "1.prems" have "fs' = fs1"
      by (simp add: mkdir_exist_ok.simps [of os parents fs p])
    with os_mkdir_made [OF Inr] show ?thesis
      by (simp add: is_dir_def add_entry_self)
  next
    case (Inl e0)
    note e0 = this
    show ?thesis
    proof (cases "isinstance e0 (Other_Class ''FileNotFoundError'')")
      case False
      with e0 "1.prems" have "is_dir fs p \<and> fs' = fs"
        by (simp add: mkdir_exist_ok.simps [of os parents fs p] split: if_splits)
      then show ?thesis by simp
    next
      case True
      show ?thesis
      proof (cases "\<not> parents \<or> p = []")
        case True
        with e0 \<open>isinstance e0 _\<close> "1.prems" show ?thesis
          by (simp add: mkdir_exist_ok.simps [of os parents fs p])
      next
        case False
        from e0 True False have unfold:
          "mkdir_exist_ok os parents fs p =
             (case mkdir_exist_ok os True fs (butlast p) of
                (Some e', fs') \<Rightarrow> (Some e', fs')
              | (None, fs') \<Rightarrow> mkdir_exist_ok os False fs' p)"
          by (subst mkdir_exist_ok.simps) simp
        obtain r fs1 where up: "mkdir_exist_ok os True fs (butlast p) = (r, fs1)"
          by (cases "mkdir_exist_ok os True fs (butlast p)")
        show ?thesis
        proof (cases r)
          case None
          with unfold up "1.prems" have "mkdir_exist_ok os False fs1 p = (None, fs')"
            by simp
          with "1.IH"(2) [OF e0 True False _ _ this] up None show ?thesis by simp
        next
          case (Some e1)
          with unfold up "1.prems" show ?thesis by simp
        qed
      qed
    qed
  qed
qed

lemma write_text_written:
  "write_text os fs q (PyStr s) = (None, fs') \<Longrightarrow> fs' q = Some (File (utf8_encode s))"
  by (auto simp: write_text_def split: sum.splits if_splits option.splits prod.splits)

lemma open_w_keeps_outputs:
  assumes "is_dir fs DATA_OUTPUTS" "open_w os fs (output_path p) = Inr fs'"
  shows "is_dir fs' DATA_OUTPUTS"
  using assms
  by (auto simp: open_w_def add_entry_def is_dir_def output_path_facts butlast_outputs
      split: option.splits node.splits if_splits)

lemma write_text_keeps_outputs:
  assumes "is_dir fs DATA_OUTPUTS" "write_text os fs (output_path p) v = (r, fs')"
  shows "is_dir fs' DATA_OUTPUTS"
proof (cases v)
  case (PyStr s)
  show ?thesis
  proof (cases "open_w os fs (output_path p)")
    case (Inl e)
    with PyStr assms show ?thesis by (simp add: write_text_def)
  next
    case (Inr fs1)
    from open_w_keeps_outputs [OF assms(1) Inr] have "is_dir (fs1(output_path p \<mapsto> n)) DATA_OUTPUTS"
      for n
      by (simp add: is_dir_def output_path_facts)
    with PyStr Inr assms(2) open_w_keeps_outputs [OF assms(1) Inr] show ?thesis
      by (auto simp: write_text_def split: if_splits option.splits)
  qed
qed (insert assms, simp_all add: write_text_def)

lemma output_obstacle_none:
  assumes "output_obstacle os fs p c = None"
  obtains fs1 fs2 where "mkdir_exist_ok os True fs DATA_OUTPUTS = (None, fs1)"
    "write_text os fs1 (output_path p) c = (None, fs2)"
proof -
  obtain r fs1 where mk: "mkdir_exist_ok os True fs DATA_OUTPUTS = (r, fs1)"
    by (cases "mkdir_exist_ok os True fs DATA_OUTPUTS")
  obtain w fs2 where wr: "write_text os fs1 (output_path p) c = (w, fs2)"
    by (cases "write_text os fs1 (output_path p) c")
  from assms mk wr have "r = None" "w = None"
    by (auto simp: output_obstacle_def split: option.splits)
  with mk wr that show ?thesis by blast
qed

lemma success_path:
  assumes "glob_star fs DATA_INPUTS = input_file # others"
    and "fs input_file = Some (File f)"
    and "net (the_request input_file f) = Inr resp"
    and "raise_for_status resp = None"
    and "json resp = Inr (PyDict items)"
    and "py_eq_int (case map_of items (ascii ''code'') of None \<Rightarrow> PyNone | Some x \<Rightarrow> x) 200"
    and "(case map_of items (ascii ''content'') of None \<Rightarrow> PyStr [] | Some x \<Rightarrow> x) = PyStr s"
    and "output_obstacle os fs input_file (PyStr s) = None"
  shows "returned (parse_file os fs net) =
      Inr [(''success'', Val (PyBool True)),
           (''message'', Val (PyStr msg_success)),
           (''content'', Val (PyStr s)),
           (''input_file'', Val (PyStr (last input_file))),
           (''output_file'', Val (PyStr (stem (last input_file) @ ascii ''_parsed.md'')))]
    \<and> fs_after (parse_file os fs net) (output_path input_file) = Some (File (utf8_encode s))
    \<and> node_kind (fs_after (parse_file os fs net) DATA_OUTPUTS) = Directory
    \<and> trace (parse_file os fs net) =
        [Ev_glob DATA_INPUTS, Ev_open input_file, Ev_post (the_request input_file f),
         Ev_mkdir DATA_OUTPUTS, Ev_write (output_path input_file) (PyStr s)]"
proof -
  let ?tr = "[Ev_glob DATA_INPUTS, Ev_open input_file, Ev_post (the_request input_file f)]"
  from assms(1-5) have body: "try_body os fs net = after_response os fs ?tr input_file (PyDict items)"
    by (simp add: try_body_def open_rb_def)
  from assms(8) obtain fs1 fs2 where mk: "mkdir_exist_ok os True fs DATA_OUTPUTS = (None, fs1)"
    and wr: "write_text os fs1 (output_path input_file) (PyStr s) = (None, fs2)"
    by (rule output_obstacle_none)
  from mk have "is_dir fs1 DATA_OUTPUTS" by (rule mkdir_exist_ok_is_dir)
  from write_text_keeps_outputs [OF this wr] have d: "node_kind (fs2 DATA_OUTPUTS) = Directory"
    by (simp add: is_dir_kind butlast_outputs)
  from wr have w: "fs2 (output_path input_file) = Some (File (utf8_encode s))"
    by (rule write_text_written)
  from assms(6,7) mk wr have "after_response os fs ?tr input_file (PyDict items) =
      \<lparr>returned = Inr
         [(''success'', Val (PyBool True)),
          (''message'', Val (PyStr msg_success)),
          (''content'', Val (PyStr s)),
          (''input_file'', Val (PyStr (last input_file))),
          (''output_file'', Val (PyStr (stem (last input_file) @ ascii ''_parsed.md'')))],
       fs_after = fs2,
       trace = ?tr @ [Ev_mkdir DATA_OUTPUTS, Ev_write (output_path input_file) (PyStr s)]\<rparr>"
    by (simp add: after_response_def py_get_dict output_path_def Let_def)
  with body w d show ?thesis
    by (simp add: parse_file_def)
qed

lemma utf8_encode_ascii: "\<forall>c\<in>set s. c < 128 \<Longrightarrow> utf8_encode s = map of_nat s"
  by (induction s) (simp_all add: utf8_encode_def utf8_char_def)

lemma output_path_test_pdf: "output_path test_pdf = DATA_OUTPUTS @ [ascii ''test_parsed.md'']"
  by (simp add: output_path_def test_pdf_def stem_def ascii_def)

lemma resp_ok_eval:
  "raise_for_status resp_ok = None"
  "json resp_ok = Inr (PyDict [(ascii ''code'', PyInt 200),
                          (ascii ''message'', PyStr (ascii ''success'')),
                          (ascii ''content'', PyStr (ascii ''# Test Document''))])"
  "map_of [(ascii ''code'', PyInt 200),
           (ascii ''message'', PyStr (ascii ''success'')),
           (ascii ''content'', PyStr (ascii ''# Test Document''))] (ascii ''code'') = Some (PyInt 200)"
  "map_of [(ascii ''code'', PyInt 200),
           (ascii ''message'', PyStr (ascii ''success'')),
           (ascii ''content'', PyStr (ascii ''# Test Document''))] (ascii ''content'')
     = Some (PyStr (ascii ''# Test Document''))"
  "\<not> list_ex surrogate (ascii ''# Test Document'')"
  by (simp_all add: resp_ok_def ascii_def surrogate_def)

lemma resp_no_content_eval:
  "raise_for_status resp_no_content = None"
  "json resp_no_content = Inr (PyDict [(ascii ''code'', PyInt 200)])"
  "map_of [(ascii ''code'', PyInt 200)] (ascii ''code'') = Some (PyInt 200)"
  "map_of [(ascii ''code'', PyInt 200)] (ascii ''content'') = None"
  by (simp_all add: resp_no_content_def ascii_def)

lemma well_formed_failure: "well_formed_result (failure err code)"
  by (simp add: well_formed_result_def failure_fields)

lemma except_clauses_catchable:
  assumes "catchable e"
  obtains err code where "except_clauses e = Inr (failure err code)"
proof -
  consider (t) "isinstance e Req_Timeout"
    | (c) "\<not> isinstance e Req_Timeout" "isinstance e Req_ConnectionError"
    | (h) "\<not> isinstance e Req_Timeout" "\<not> isinstance e Req_ConnectionError"
          "isinstance e Req_HTTPError"
    | (x) "\<not> isinstance e Req_Timeout" "\<not> isinstance e Req_ConnectionError"
          "\<not> isinstance e Req_HTTPError"
    by blast
  then show ?thesis
  proof cases
    case t
    then have "except_clauses e = Inr (failure (Val (PyStr msg_timeout)) ''TIMEOUT'')"
      by (simp add: except_clauses_def)
    then show ?thesis by (rule that)
  next
    case c
    then have "except_clauses e = Inr (failure (Val (PyStr msg_connection)) ''CONNECTION_ERROR'')"
      by (simp add: except_clauses_def)
    then show ?thesis by (rule that)
  next
    case h
    with assms obtain sc body where "exc_response e = Some (sc, body)"
      by (cases "exc_response e") (auto simp: catchable_def)
    with h have "except_clauses e = Inr (failure (Val (PyStr (msg_http sc body))) ''HTTP_ERROR'')"
      by (simp add: except_clauses_def)
    then show ?thesis by (rule that)
  next
    case x
    with assms have "except_clauses e = Inr (failure (Str_of e) ''UNEXPECTED_ERROR'')"
      by (simp add: except_clauses_def catchable_def)
    then show ?thesis by (rule that)
  qed
qed

lemma catchable_plain: "plain e \<Longrightarrow> catchable e"
  by (simp add: plain_def catchable_def)

lemma returns_failure:
  assumes "returned (try_body os fs net) = Inl e" "catchable e"
  shows "\<exists>r. returned (parse_file os fs net) = Inr r \<and> well_formed_result r"
proof -
  from assms(2) obtain err code where "except_clauses e = Inr (failure err code)"
    by (rule except_clauses_catchable)
  with assms(1) show ?thesis
    by (simp add: parse_file_returned well_formed_failure)
qed

lemma catchable_value_error: "catchable value_error"
  by (simp add: catchable_def value_error_def builtin_error_def isinstance_def)

lemma parse_file_parse_failed:
  assumes "glob_star fs DATA_INPUTS = p # ps" "open_rb fs p = Inr f"
    "net (the_request p f) = Inr resp" "raise_for_status resp = None"
    "json resp = Inr (PyDict items)"
    "\<not> py_eq_int (case map_of items (ascii ''code'') of None \<Rightarrow> PyNone | Some x \<Rightarrow> x) 200"
  shows "parse_file os fs net =
    \<lparr>returned = Inr (failure
        (Val (case map_of items (ascii ''message'') of
                None \<Rightarrow> PyStr msg_parse_failed | Some x \<Rightarrow> x)) ''PARSE_FAILED''),
     fs_after = fs,
     trace = [Ev_glob DATA_INPUTS, Ev_open p, Ev_post (the_request p f)]\<rparr>"
  using assms by (simp add: parse_file_def try_body_def after_response_def py_get_dict)

lemma resp_eval:
  "raise_for_status resp_404 = Some http_error_404"
  "raise_for_status resp_500 = None"
  "json resp_500 = Inr (PyDict [(ascii ''code'', PyInt 500),
                          (ascii ''message'', PyStr (ascii ''Internal server error''))])"
  by (simp_all add: resp_404_def resp_500_def)

lemma resp_500_fields:
  "\<not> py_eq_int (case map_of [(ascii ''code'', PyInt 500),
        (ascii ''message'', PyStr (ascii ''Internal server error''))] (ascii ''code'') of
      None \<Rightarrow> PyNone | Some x \<Rightarrow> x) 200"
  "(case map_of [(ascii ''code'', PyInt 500),
        (ascii ''message'', PyStr (ascii ''Internal server error''))] (ascii ''message'') of
      None \<Rightarrow> PyStr msg_parse_failed | Some x \<Rightarrow> x) = PyStr (ascii ''Internal server error'')"
  by (simp_all add: ascii_def)

lemma isinstance_eval:
  "isinstance read_timeout Req_Timeout"
  "isinstance connect_timeout Req_Timeout" "isinstance connect_timeout Req_ConnectionError"
  "\<not> isinstance connection_error Req_Timeout" "isinstance connection_error Req_ConnectionError"
  "\<not> isinstance http_error_404 Req_Timeout" "\<not> isinstance http_error_404 Req_ConnectionError"
  "isinstance http_error_404 Req_HTTPError"
  "exc_response http_error_404 = Some (404, ascii ''Not Found'')"
  "\<not> isinstance value_error Req_Timeout" "\<not> isinstance value_error Req_ConnectionError"
  "\<not> isinstance value_error Req_HTTPError" "isinstance value_error Py_Exception"
  "\<not> isinstance keyboard_interrupt Py_Exception"
  by (simp_all add: isinstance_def read_timeout_def connect_timeout_def connection_error_def
      http_error_404_def value_error_def keyboard_interrupt_def requests_mro_def
      builtin_error_def)

lemma timeout_is_not_connection: "ascii ''TIMEOUT'' \<noteq> ascii ''CONNECTION_ERROR''"
  by (simp add: ascii_def)




section \<open>What the returned dictionary depends on\<close>

lemma mkdir_outputs_fst:
  assumes "mkdir_fault os DATA_OUTPUTS = None" "mkdir_fault os [ascii ''data''] = None"
  shows "fst (mkdir_exist_ok os True fs DATA_OUTPUTS) =
     (case node_kind (fs DATA_OUTPUTS) of
        Directory \<Rightarrow> None
      | Regular \<Rightarrow> Some (FileExistsError DATA_OUTPUTS)
      | Absent \<Rightarrow>
          (case node_kind (fs [ascii ''data'']) of
             Regular \<Rightarrow> Some (NotADirectoryError DATA_OUTPUTS)
           | _ \<Rightarrow> None))"
  by (simp add: mkdir_outputs [OF assms] split: option.splits node.splits)

lemma mkdir_outputs_snd:
  assumes "mkdir_fault os DATA_OUTPUTS = None" "mkdir_fault os [ascii ''data''] = None"
  shows "snd (mkdir_exist_ok os True fs DATA_OUTPUTS) (output_path p) = fs (output_path p)"
  by (simp add: mkdir_outputs [OF assms] add_entry_self add_entry_other output_path_facts
      butlast_outputs output_path_not_cwd split: option.splits node.splits)

lemma write_text_fst:
  assumes "is_dir fs DATA_OUTPUTS"
  shows "fst (write_text os fs (output_path p) v) =
     (case v of
        PyStr s \<Rightarrow>
          (if node_kind (fs (output_path p)) = Directory
           then Some (IsADirectoryError (output_path p))
           else (case open_fault os (output_path p) of
                   Some flt \<Rightarrow> Some (fault_error flt (output_path p))
                 | None \<Rightarrow>
                     if list_ex surrogate s then Some (UnicodeEncodeError s)
                     else map_option (\<lambda>w. fault_error (fst w) (output_path p))
                            (write_fault os (output_path p))))
      | _ \<Rightarrow> Some (TypeError (''data must be str, not '' @ type_name v)))"
proof (cases v)
  case (PyStr s)
  from assms obtain ns where d: "fs DATA_OUTPUTS = Some (Dir ns)"
    by (cases "fs DATA_OUTPUTS" rule: node_kind.cases) (auto simp: is_dir_def butlast_outputs)
  show ?thesis
  proof (cases "fs (output_path p)" rule: node_kind.cases)
    case 1
    with d PyStr show ?thesis
      by (simp add: write_text_def open_w_def path_exists_def is_dir_def output_path_facts
          split: option.splits)
  next
    case (2 b)
    with PyStr show ?thesis by (simp add: write_text_def open_w_def split: option.splits)
  next
    case (3 ns')
    with PyStr show ?thesis by (simp add: write_text_def open_w_def)
  qed
qed (simp_all add: write_text_def)

text \<open>
  What lines 94 to 99 raise, from the kinds of the nodes at \<open>data\<close>, \<open>data/outputs\<close> and
  the output file, when \<open>mkdir\<close> is not refused.
\<close>

lemma output_obstacle_eval:
  assumes "mkdir_fault os DATA_OUTPUTS = None" "mkdir_fault os [ascii ''data''] = None"
  shows "output_obstacle os fs p v =
     (if node_kind (fs DATA_OUTPUTS) = Regular then Some (FileExistsError DATA_OUTPUTS)
      else if node_kind (fs DATA_OUTPUTS) = Absent \<and> node_kind (fs [ascii ''data'']) = Regular
      then Some (NotADirectoryError DATA_OUTPUTS)
      else
        (case v of
           PyStr s \<Rightarrow>
             (if node_kind (fs (output_path p)) = Directory
              then Some (IsADirectoryError (output_path p))
              else (case open_fault os (output_path p) of
                      Some flt \<Rightarrow> Some (fault_error flt (output_path p))
                    | None \<Rightarrow>
                        if list_ex surrogate s then Some (UnicodeEncodeError s)
                        else map_option (\<lambda>w. fault_error (fst w) (output_path p))
                               (write_fault os (output_path p))))
         | _ \<Rightarrow> Some (TypeError (''data must be str, not '' @ type_name v))))"
proof -
  obtain r fs1 where mk: "mkdir_exist_ok os True fs DATA_OUTPUTS = (r, fs1)"
    by (cases "mkdir_exist_ok os True fs DATA_OUTPUTS")
  from mkdir_outputs_fst [OF assms, of fs] mk have r: "r =
     (case node_kind (fs DATA_OUTPUTS) of
        Directory \<Rightarrow> None
      | Regular \<Rightarrow> Some (FileExistsError DATA_OUTPUTS)
      | Absent \<Rightarrow>
          (case node_kind (fs [ascii ''data'']) of
             Regular \<Rightarrow> Some (NotADirectoryError DATA_OUTPUTS)
           | _ \<Rightarrow> None))"
    by simp
  show ?thesis
  proof (cases r)
    case (Some e)
    with r mk show ?thesis
      by (auto simp: output_obstacle_def split: kind.splits)
  next
    case None
    with mk have d: "is_dir fs1 DATA_OUTPUTS" by (simp add: mkdir_exist_ok_is_dir)
    from mkdir_outputs_snd [OF assms, of fs p] mk have q: "fs1 (output_path p) = fs (output_path p)"
      by simp
    from None r have k: "node_kind (fs DATA_OUTPUTS) \<noteq> Regular"
      "\<not> (node_kind (fs DATA_OUTPUTS) = Absent \<and> node_kind (fs [ascii ''data'']) = Regular)"
      by (auto split: kind.splits)
    from mk None have "output_obstacle os fs p v = fst (write_text os fs1 (output_path p) v)"
      by (simp add: output_obstacle_def)
    with k show ?thesis
      by (simp only: write_text_fst [OF d] q if_False)
  qed
qed

lemma returned_after_response:
  "returned (after_response os fs tr p v) =
     (case py_get v ''code'' PyNone of
        Inl e \<Rightarrow> Inl e
      | Inr code \<Rightarrow>
          if \<not> py_eq_int code 200 then
            (case py_get v ''message'' (PyStr msg_parse_failed) of
               Inl e \<Rightarrow> Inl e
             | Inr message \<Rightarrow> Inr (failure (Val message) ''PARSE_FAILED''))
          else
            (case py_get v ''content'' (PyStr []) of
               Inl e \<Rightarrow> Inl e
             | Inr content \<Rightarrow>
                 (case output_obstacle os fs p content of
                    Some e \<Rightarrow> Inl e
                  | None \<Rightarrow>
                      Inr [(''success'', Val (PyBool True)),
                           (''message'', Val (PyStr msg_success)),
                           (''content'', Val content),
                           (''input_file'', Val (PyStr (last p))),
                           (''output_file'',
                            Val (PyStr (stem (last p) @ ascii ''_parsed.md'')))])))"
proof -
  obtain r fs1 where mk: "mkdir_exist_ok os True fs DATA_OUTPUTS = (r, fs1)"
    by (cases "mkdir_exist_ok os True fs DATA_OUTPUTS")
  have wr: "(case write_text os fs1 (output_path p) c of (Some e, fs2) \<Rightarrow> f e fs2 | (None, fs2) \<Rightarrow> g fs2)
      = (case fst (write_text os fs1 (output_path p) c) of
           Some e \<Rightarrow> f e (snd (write_text os fs1 (output_path p) c))
         | None \<Rightarrow> g (snd (write_text os fs1 (output_path p) c)))"
    for c and f :: "py_exception \<Rightarrow> filesystem \<Rightarrow> outcome" and g
    by (cases "write_text os fs1 (output_path p) c") (simp split: option.splits)
  show ?thesis
    by (cases r)
       (simp_all add: after_response_def output_obstacle_def mk wr output_path_def [symmetric]
          Let_def split: sum.splits option.splits)
qed

lemma returned_try_body:
  "returned (try_body os fs net) =
     (case glob_star fs DATA_INPUTS of
        [] \<Rightarrow> Inr (failure (Val (PyStr msg_no_input)) ''NO_INPUT_FILE'')
      | p # ps \<Rightarrow>
          (case open_rb fs p of
             Inl e \<Rightarrow> Inl e
           | Inr f \<Rightarrow>
               (case net (the_request p f) of
                  Inl e \<Rightarrow> Inl e
                | Inr resp \<Rightarrow>
                    (case raise_for_status resp of
                       Some e \<Rightarrow> Inl e
                     | None \<Rightarrow>
                         (case json resp of
                            Inl e \<Rightarrow> Inl e
                          | Inr v \<Rightarrow>
                              returned (after_response os fs
                                [Ev_glob DATA_INPUTS, Ev_open p, Ev_post (the_request p f)]
                                p v))))))"
  by (simp add: try_body_def Let_def split: list.splits sum.splits option.splits)

lemma fs_blocked_eval:
  "glob_star fs_blocked DATA_INPUTS = [test_pdf]"
  "open_rb fs_blocked test_pdf = Inr pdf_bytes"
  "node_kind (fs_blocked DATA_OUTPUTS) = Regular"
  by (simp_all add: fs_blocked_def fs_input_def glob_star_def open_rb_def test_pdf_def
      DATA_INPUTS_def DATA_OUTPUTS_def ascii_def)

section \<open>Runs that fail at the output location\<close>

lemma output_obstacle_plain: "output_obstacle os fs p c = Some e \<Longrightarrow> plain e"
proof -
  assume a: "output_obstacle os fs p c = Some e"
  obtain r fs1 where mk: "mkdir_exist_ok os True fs DATA_OUTPUTS = (r, fs1)"
    by (cases "mkdir_exist_ok os True fs DATA_OUTPUTS")
  obtain w fs2 where wr: "write_text os fs1 (output_path p) c = (w, fs2)"
    by (cases "write_text os fs1 (output_path p) c")
  show "plain e"
  proof (cases r)
    case (Some e1)
    with a mk have "e1 = e" by (simp add: output_obstacle_def)
    with mk Some show ?thesis by (simp add: mkdir_exist_ok_plain)
  next
    case None
    with a mk wr have "w = Some e" by (simp add: output_obstacle_def)
    with wr show ?thesis by (simp add: write_text_plain)
  qed
qed

lemma output_refused:
  assumes "glob_star fs DATA_INPUTS = p # ps" "open_rb fs p = Inr f"
    "net (the_request p f) = Inr resp" "raise_for_status resp = None"
    "json resp = Inr (PyDict items)"
    "py_eq_int (case map_of items (ascii ''code'') of None \<Rightarrow> PyNone | Some x \<Rightarrow> x) 200"
    "output_obstacle os fs p
       (case map_of items (ascii ''content'') of None \<Rightarrow> PyStr [] | Some x \<Rightarrow> x) = Some e"
  shows "returned (parse_file os fs net) = Inr (failure (Str_of e) ''UNEXPECTED_ERROR'')"
proof -
  from assms have "returned (try_body os fs net) = Inl e"
    by (simp add: returned_try_body returned_after_response py_get_dict)
  with output_obstacle_plain [OF assms(7)] show ?thesis
    by (simp add: parse_file_returned except_clauses_plain)
qed

lemma no_faults_eval:
  "mkdir_fault no_faults p = None" "open_fault no_faults p = None"
  "write_fault no_faults p = None"
  by (simp_all add: no_faults_def)

lemma os_denied_eval:
  "mkdir_fault os_denied p = None"
  "open_fault os_denied (output_path test_pdf) = Some permission_denied"
  by (simp_all add: os_denied_def no_faults_def output_path_test_pdf)

lemma fs_input_kinds:
  "node_kind (fs_input DATA_OUTPUTS) = Absent"
  "node_kind (fs_input [ascii ''data'']) = Directory"
  "node_kind (fs_input (output_path test_pdf)) = Absent"
  unfolding output_path_test_pdf
  by (simp_all add: fs_input_def test_pdf_def DATA_INPUTS_def DATA_OUTPUTS_def ascii_def)


lemma obstacle_fs_input:
  "output_obstacle no_faults fs_input test_pdf v =
     (case v of
        PyStr s \<Rightarrow> if list_ex surrogate s then Some (UnicodeEncodeError s) else None
      | _ \<Rightarrow> Some (TypeError (''data must be str, not '' @ type_name v)))"
  by (simp add: output_obstacle_eval no_faults_eval fs_input_kinds split: py_value.splits)


lemma obstacle_fs_blocked:
  "output_obstacle no_faults fs_blocked p v = Some (FileExistsError DATA_OUTPUTS)"
  by (simp add: output_obstacle_eval no_faults_eval fs_blocked_eval)

lemma obstacle_os_denied:
  "output_obstacle os_denied fs_input test_pdf (PyStr s) =
     Some (fault_error permission_denied (output_path test_pdf))"
  by (simp add: output_obstacle_eval os_denied_eval fs_input_kinds)

lemma rfind_append:
  "rfind (xs @ ys) c =
     (case rfind ys c of Some i \<Rightarrow> Some (length xs + i) | None \<Rightarrow> rfind xs c)"
  by (induction xs) (simp_all split: option.splits)

lemma rfind_replicate: "c \<noteq> x \<Longrightarrow> rfind (replicate n x) c = None"
  by (induction n) simp_all

lemma long_name_eval:
  "length long_name = 255"
  "length (utf8_encode long_name) = 255"
  "stem long_name = replicate 251 97"
  "length (utf8_encode (replicate 251 97 @ ascii ''_parsed.md'')) = 261"
proof -
  show "length long_name = 255"
    by (simp add: long_name_def ascii_def)
  have "utf8_encode long_name = map of_nat long_name"
    by (rule utf8_encode_ascii) (auto simp: long_name_def ascii_def)
  then show "length (utf8_encode long_name) = 255"
    by (simp add: long_name_def ascii_def)
  have "rfind (ascii ''.pdf'') 46 = Some 0"
    by (simp add: ascii_def)
  then have "rfind long_name 46 = Some 251"
    by (simp add: long_name_def rfind_append)
  then show "stem long_name = replicate 251 97"
    by (simp add: stem_def long_name_def ascii_def)
  have "utf8_encode (replicate 251 97 @ ascii ''_parsed.md'')
      = map of_nat (replicate 251 97 @ ascii ''_parsed.md'')"
    by (rule utf8_encode_ascii) (auto simp: ascii_def)
  then show "length (utf8_encode (replicate 251 97 @ ascii ''_parsed.md'')) = 261"
    by (simp add: ascii_def)
qed

lemma fs_long_name_eval:
  "glob_star fs_long_name DATA_INPUTS = [DATA_INPUTS @ [long_name]]"
  "open_rb fs_long_name (DATA_INPUTS @ [long_name]) = Inr pdf_bytes"
  "node_kind (fs_long_name DATA_OUTPUTS) = Absent"
  "node_kind (fs_long_name [ascii ''data'']) = Directory"
  "node_kind (fs_long_name (DATA_OUTPUTS @ [replicate 251 97 @ ascii ''_parsed.md''])) = Absent"
  by (simp_all add: fs_long_name_def glob_star_def open_rb_def DATA_INPUTS_def
      DATA_OUTPUTS_def ascii_def)

lemma output_path_long_name:
  "output_path (DATA_INPUTS @ [long_name])
     = DATA_OUTPUTS @ [replicate 251 97 @ ascii ''_parsed.md'']"
  by (simp add: output_path_def long_name_eval)

lemma os_name_max_eval:
  "mkdir_fault os_name_max DATA_OUTPUTS = None"
  "mkdir_fault os_name_max [ascii ''data''] = None"
  "open_fault os_name_max (DATA_OUTPUTS @ [replicate 251 97 @ ascii ''_parsed.md''])
     = Some ([], 36, ''File name too long'')"
proof -
  show "mkdir_fault os_name_max DATA_OUTPUTS = None"
    "mkdir_fault os_name_max [ascii ''data''] = None"
    by (simp_all add: os_name_max_def name_too_long_def DATA_OUTPUTS_def ascii_def
        utf8_encode_def utf8_char_def)
  show "open_fault os_name_max (DATA_OUTPUTS @ [replicate 251 97 @ ascii ''_parsed.md''])
     = Some ([], 36, ''File name too long'')"
    by (simp add: os_name_max_def name_too_long_def long_name_eval(4))
qed

lemma obstacle_long_name:
  "output_obstacle os_name_max fs_long_name (DATA_INPUTS @ [long_name]) (PyStr s) =
     Some (os_error [] 36 ''File name too long''
             (DATA_OUTPUTS @ [replicate 251 97 @ ascii ''_parsed.md'']))"
  by (simp add: output_obstacle_eval [OF os_name_max_eval(1,2)] output_path_long_name
      fs_long_name_eval os_name_max_eval(3) fault_error_def)

lemma net_eval:
  "net_returns resp req = Inr resp" "net_raises e req = Inl e"
  by (simp_all add: net_returns_def net_raises_def)

lemma more_resp_eval:
  "raise_for_status resp_null_content = None"
  "json resp_null_content = Inr (PyDict [(ascii ''code'', PyInt 200), (ascii ''content'', PyNone)])"
  "raise_for_status resp_surrogate = None"
  "json resp_surrogate =
     Inr (PyDict [(ascii ''code'', PyInt 200), (ascii ''content'', PyStr [0xD800])])"
  "raise_for_status resp_not_json = None"
  "json resp_not_json = Inl json_decode_error"
  by (simp_all add: resp_null_content_def resp_surrogate_def resp_not_json_def)

lemma code_200:
  "py_eq_int (case map_of ((ascii ''code'', PyInt 200) # items) (ascii ''code'') of
                None \<Rightarrow> PyNone | Some x \<Rightarrow> x) 200"
  by simp

lemma content_fields:
  "(case map_of [(ascii ''code'', PyInt 200), (ascii ''content'', c)] (ascii ''content'') of
      None \<Rightarrow> PyStr [] | Some x \<Rightarrow> x) = c"
  "(case map_of [(ascii ''code'', PyInt 200)] (ascii ''content'') of
      None \<Rightarrow> PyStr [] | Some x \<Rightarrow> x) = PyStr []"
  "(case map_of [(ascii ''code'', PyInt 200),
                 (ascii ''message'', PyStr (ascii ''success'')),
                 (ascii ''content'', c)] (ascii ''content'') of
      None \<Rightarrow> PyStr [] | Some x \<Rightarrow> x) = c"
  by (simp_all add: ascii_def)

lemma json_decode_error_eval:
  "\<not> isinstance json_decode_error Req_Timeout"
  "\<not> isinstance json_decode_error Req_ConnectionError"
  "\<not> isinstance json_decode_error Req_HTTPError"
  "isinstance json_decode_error Py_Exception"
  by (simp_all add: isinstance_def json_decode_error_def)



section \<open>Claims\<close>

text \<open>
  C1. When the first entry of the input directory is a regular file, the POST returns a
  response that passes \<open>raise_for_status\<close> and whose JSON body is an object with \<open>code\<close>
  200 and a text \<open>content\<close>, and making \<open>data/outputs\<close> and writing the output file raise
  nothing (the text can be encoded in UTF-8, no node is in the way and the operating
  system does not refuse), \<open>parse_file\<close> returns the dictionary with \<open>success\<close> \<open>True\<close>,
  that \<open>content\<close> and \<open>output_file\<close> \<open><stem>_parsed.md\<close>; afterwards \<open>data/outputs\<close> is
  a directory and \<open>data/outputs/<stem>_parsed.md\<close> holds the UTF-8 encoding of the
  content.
\<close>

theorem parse_file_success:
  assumes "glob_star fs DATA_INPUTS = input_file # others"
    and "fs input_file = Some (File f)"
    and "net (the_request input_file f) = Inr resp"
    and "raise_for_status resp = None"
    and "json resp = Inr (PyDict items)"
    and "map_of items (ascii ''code'') = Some code"
    and "py_eq_int code 200"
    and "map_of items (ascii ''content'') = Some (PyStr content)"
    and "output_obstacle os fs input_file (PyStr content) = None"
  shows "returned (parse_file os fs net) =
      Inr [(''success'', Val (PyBool True)),
           (''message'', Val (PyStr msg_success)),
           (''content'', Val (PyStr content)),
           (''input_file'', Val (PyStr (last input_file))),
           (''output_file'', Val (PyStr (stem (last input_file) @ ascii ''_parsed.md'')))]
    \<and> fs_after (parse_file os fs net) (DATA_OUTPUTS @ [stem (last input_file) @ ascii ''_parsed.md''])
        = Some (File (utf8_encode content))
    \<and> node_kind (fs_after (parse_file os fs net) DATA_OUTPUTS) = Directory"
proof -
  from assms(6,7) have code: "py_eq_int
      (case map_of items (ascii ''code'') of None \<Rightarrow> PyNone | Some x \<Rightarrow> x) 200"
    by simp
  from assms(8) have content:
    "(case map_of items (ascii ''content'') of None \<Rightarrow> PyStr [] | Some x \<Rightarrow> x) = PyStr content"
    by simp
  from success_path [where s = content and os = os and others = others and fs = fs
        and input_file = input_file and f = f and net = net and resp = resp and items = items,
      OF assms(1-5) code content assms(9)] show ?thesis
    by (simp add: output_path_def)
qed

theorem parse_file_success_witness:
  "output_obstacle no_faults fs_input test_pdf (PyStr (ascii ''# Test Document'')) = None
   \<and> returned (parse_file no_faults fs_input (net_returns resp_ok)) =
      Inr [(''success'', Val (PyBool True)),
           (''message'', Val (PyStr msg_success)),
           (''content'', Val (PyStr (ascii ''# Test Document''))),
           (''input_file'', Val (PyStr (ascii ''test.pdf''))),
           (''output_file'', Val (PyStr (ascii ''test_parsed.md'')))]
   \<and> fs_after (parse_file no_faults fs_input (net_returns resp_ok))
        (DATA_OUTPUTS @ [ascii ''test_parsed.md''])
        = Some (File (map of_nat (ascii ''# Test Document'')))
   \<and> node_kind (fs_input DATA_OUTPUTS) = Absent
   \<and> node_kind (fs_after (parse_file no_faults fs_input (net_returns resp_ok)) DATA_OUTPUTS)
        = Directory"
proof -
  have name: "last test_pdf = ascii ''test.pdf''"
    "stem (ascii ''test.pdf'') @ ascii ''_parsed.md'' = ascii ''test_parsed.md''"
    by (simp_all add: test_pdf_def stem_def ascii_def)
  have enc: "utf8_encode (ascii ''# Test Document'') = map of_nat (ascii ''# Test Document'')"
    by (rule utf8_encode_ascii) (simp add: ascii_def)
  have absent: "node_kind (fs_input DATA_OUTPUTS) = Absent"
    by (simp add: fs_input_eval)
  have free: "output_obstacle no_faults fs_input test_pdf (PyStr (ascii ''# Test Document'')) = None"
    by (simp add: obstacle_fs_input resp_ok_eval(5))
  have "py_eq_int (PyInt 200) 200" by simp
  from parse_file_success [where os = no_faults and others = "[]" and code = "PyInt 200"
        and fs = fs_input and input_file = test_pdf and f = pdf_bytes
        and net = "net_returns resp_ok" and resp = resp_ok
        and content = "ascii ''# Test Document''",
      OF fs_input_eval(1,2) net_eval(1) resp_ok_eval(1,2,3) this resp_ok_eval(4) free]
  show ?thesis by (simp only: name enc absent free simp_thms)
qed

text \<open>
  As it was stated the claim fails where the output cannot be written although the input
  file exists and the POST succeeds with \<open>code\<close> 200: with \<open>content\<close> \<open>null\<close>,
  \<open>write_text\<close> raises \<open>TypeError\<close>; with a lone surrogate as \<open>content\<close> it raises
  \<open>UnicodeEncodeError\<close>; when the operating system refuses to open the output file it
  raises \<open>PermissionError\<close>; and for an input file with a name of 255 bytes the name of
  the output file is too long, and it raises \<open>OSError\<close>. Each time \<open>parse_file\<close> returns
  \<open>UNEXPECTED_ERROR\<close>.
\<close>

theorem parse_file_success_counterexample:
  "glob_star fs_input DATA_INPUTS = [test_pdf] \<and> fs_input test_pdf = Some (File pdf_bytes)
   \<and> json resp_null_content =
        Inr (PyDict [(ascii ''code'', PyInt 200), (ascii ''content'', PyNone)])
   \<and> fails_with (parse_file no_faults fs_input (net_returns resp_null_content))
        ''UNEXPECTED_ERROR'' (Str_of (TypeError ''data must be str, not NoneType''))
   \<and> fails_with (parse_file no_faults fs_input (net_returns resp_surrogate))
        ''UNEXPECTED_ERROR'' (Str_of (UnicodeEncodeError [0xD800]))
   \<and> fails_with (parse_file os_denied fs_input (net_returns resp_ok))
        ''UNEXPECTED_ERROR''
        (Str_of (os_error [''PermissionError''] 13 ''Permission denied''
                   (DATA_OUTPUTS @ [ascii ''test_parsed.md''])))
   \<and> length (utf8_encode long_name) = 255
   \<and> fails_with (parse_file os_name_max fs_long_name (net_returns resp_ok))
        ''UNEXPECTED_ERROR''
        (Str_of (os_error [] 36 ''File name too long''
                   (DATA_OUTPUTS @ [replicate 251 97 @ ascii ''_parsed.md''])))"
proof -
  have null: "output_obstacle no_faults fs_input test_pdf
      (case map_of [(ascii ''code'', PyInt 200), (ascii ''content'', PyNone)] (ascii ''content'') of
         None \<Rightarrow> PyStr [] | Some x \<Rightarrow> x)
      = Some (TypeError ''data must be str, not NoneType'')"
    unfolding content_fields by (simp add: obstacle_fs_input)
  have sur: "output_obstacle no_faults fs_input test_pdf
      (case map_of [(ascii ''code'', PyInt 200), (ascii ''content'', PyStr [0xD800])]
              (ascii ''content'') of
         None \<Rightarrow> PyStr [] | Some x \<Rightarrow> x)
      = Some (UnicodeEncodeError [0xD800])"
    unfolding content_fields by (simp add: obstacle_fs_input surrogate_def)
  have den: "output_obstacle os_denied fs_input test_pdf
      (case map_of [(ascii ''code'', PyInt 200),
                    (ascii ''message'', PyStr (ascii ''success'')),
                    (ascii ''content'', PyStr (ascii ''# Test Document''))] (ascii ''content'') of
         None \<Rightarrow> PyStr [] | Some x \<Rightarrow> x)
      = Some (os_error [''PermissionError''] 13 ''Permission denied''
                (DATA_OUTPUTS @ [ascii ''test_parsed.md'']))"
    unfolding content_fields
    by (simp add: obstacle_os_denied permission_denied_def fault_error_def output_path_test_pdf)
  have long: "output_obstacle os_name_max fs_long_name (DATA_INPUTS @ [long_name])
      (case map_of [(ascii ''code'', PyInt 200),
                    (ascii ''message'', PyStr (ascii ''success'')),
                    (ascii ''content'', PyStr (ascii ''# Test Document''))] (ascii ''content'') of
         None \<Rightarrow> PyStr [] | Some x \<Rightarrow> x)
      = Some (os_error [] 36 ''File name too long''
                (DATA_OUTPUTS @ [replicate 251 97 @ ascii ''_parsed.md'']))"
    unfolding content_fields by (rule obstacle_long_name)
  note run_long = output_refused [where ps = "[]" and fs = fs_long_name
      and p = "DATA_INPUTS @ [long_name]" and f = pdf_bytes and net = "net_returns resp_ok"
      and resp = resp_ok and os = os_name_max,
      OF fs_long_name_eval(1,2) net_eval(1) resp_ok_eval(1,2) code_200 long]
  note run = output_refused [where ps = "[]" and fs = fs_input and p = test_pdf
      and f = pdf_bytes, OF fs_input_eval(1,3)]
  from run [where net = "net_returns resp_null_content" and resp = resp_null_content
        and os = no_faults, OF net_eval(1) more_resp_eval(1,2) code_200 null]
    run [where net = "net_returns resp_surrogate" and resp = resp_surrogate
        and os = no_faults, OF net_eval(1) more_resp_eval(3,4) code_200 sur]
    run [where net = "net_returns resp_ok" and resp = resp_ok
        and os = os_denied, OF net_eval(1) resp_ok_eval(1,2) code_200 den]
    run_long
  show ?thesis
    by (simp add: fails_with_failure fs_input_eval more_resp_eval long_name_eval(2))
qed

text \<open>
  C2. For every filesystem, and every behaviour of the POST in which each exception raised
  by \<open>requests.post\<close>, by \<open>raise_for_status\<close> or by \<open>json\<close> is an \<open>Exception\<close> (an \<open>HTTPError\<close>
  with its response), \<open>parse_file\<close> returns a dictionary, and a dictionary whose \<open>success\<close>
  is not \<open>True\<close> has \<open>success\<close> \<open>False\<close>, an \<open>error\<close> and an \<open>error_code\<close>.
\<close>

theorem parse_file_returns_dictionary:
  assumes "\<And>req e. net req = Inl e \<Longrightarrow> catchable e"
    and "\<And>req resp e. net req = Inr resp \<Longrightarrow> raise_for_status resp = Some e \<Longrightarrow> catchable e"
    and "\<And>req resp e. net req = Inr resp \<Longrightarrow> json resp = Inl e \<Longrightarrow> catchable e"
  shows "\<exists>r. returned (parse_file os fs net) = Inr r \<and> well_formed_result r"
proof (cases rule: try_body_cases [where os = os and fs = fs and net = net])
  case no_input
  then show ?thesis by (simp add: parse_file_returned well_formed_failure)
next
  case (open_failed p ps e)
  then have "returned (try_body os fs net) = Inl e" "catchable e"
    by (simp_all add: open_rb_plain catchable_plain)
  then show ?thesis by (rule returns_failure)
next
  case (request_failed p ps f e)
  from request_failed(3) assms have "catchable e" by blast
  moreover from request_failed(4) have "returned (try_body os fs net) = Inl e" by simp
  ultimately show ?thesis using returns_failure by blast
next
  case (responded p ps f resp v)
  let ?tr = "[Ev_glob DATA_INPUTS, Ev_open p, Ev_post (the_request p f)]"
  show ?thesis
  proof (cases rule: after_response_cases [of os fs ?tr p v])
    case (not_dict e)
    with responded have "returned (try_body os fs net) = Inl e" "catchable e"
      by (simp_all add: catchable_plain)
    then show ?thesis by (rule returns_failure)
  next
    case (parse_failed items)
    with responded show ?thesis by (simp add: parse_file_returned well_formed_failure)
  next
    case (mkdir_failed e fs1)
    with responded have "returned (try_body os fs net) = Inl e" "catchable e"
      by (simp_all add: catchable_plain)
    then show ?thesis by (rule returns_failure)
  next
    case (write_failed items e fs1 fs2)
    with responded have "returned (try_body os fs net) = Inl e" "catchable e"
      by (simp_all add: catchable_plain)
    then show ?thesis by (rule returns_failure)
  next
    case (written items content fs1 fs2)
    with responded show ?thesis
      by (simp add: parse_file_returned well_formed_result_def)
  qed
qed

theorem parse_file_returns_dictionary_witness:
  "returned (parse_file no_faults fs_input (net_raises value_error)) =
     Inr (failure (Str_of value_error) ''UNEXPECTED_ERROR'')
   \<and> (\<exists>r. returned (parse_file no_faults fs_input (net_raises value_error)) = Inr r
          \<and> well_formed_result r)"
proof -
  have "returned (parse_file no_faults fs_input (net_raises value_error)) =
      Inr (failure (Str_of value_error) ''UNEXPECTED_ERROR'')"
    using parse_file_raises [where os = no_faults and ps = "[]" and fs = fs_input
        and p = test_pdf and f = pdf_bytes and net = "net_raises value_error"
        and e = value_error, OF fs_input_eval(1,3) net_eval(2)]
    by (simp add: except_clauses_eval)
  moreover have "\<exists>r. returned (parse_file no_faults fs_input (net_raises value_error)) = Inr r
          \<and> well_formed_result r"
    by (rule parse_file_returns_dictionary [where net = "net_raises value_error"])
       (simp_all add: net_raises_def catchable_value_error)
  ultimately show ?thesis by blast
qed

text \<open>
  The claim as it was stated fails on \<open>KeyboardInterrupt\<close>: it is no \<open>Exception\<close>, no
  clause catches it, and \<open>parse_file\<close> raises it.
\<close>

theorem parse_file_raises_counterexample:
  "returned (parse_file no_faults fs_input (net_raises keyboard_interrupt)) =
     Inl keyboard_interrupt"
  using parse_file_raises [where os = no_faults and ps = "[]" and fs = fs_input
      and p = test_pdf and f = pdf_bytes and net = "net_raises keyboard_interrupt"
      and e = keyboard_interrupt, OF fs_input_eval(1,3) net_eval(2)]
  by (simp add: except_clauses_eval)

text \<open>
  C3. With an entry in the input directory, an exception raised anywhere in the body of
  the \<open>try\<close> statement (by \<open>open\<close>, by the POST, by \<open>raise_for_status\<close>, by \<open>json\<close>, by
  \<open>get\<close> on a JSON value that is no object, by \<open>mkdir\<close> or by \<open>write_text\<close>) is mapped
  by the first clause that matches: a \<open>Timeout\<close> gives \<open>TIMEOUT\<close>; a \<open>ConnectionError\<close>
  that is no \<open>Timeout\<close> gives \<open>CONNECTION_ERROR\<close>; an \<open>HTTPError\<close> that is neither, with
  its response, gives \<open>HTTP_ERROR\<close>; any other \<open>Exception\<close> gives \<open>UNEXPECTED_ERROR\<close>. A
  JSON object whose \<open>code\<close> is not 200 gives \<open>PARSE_FAILED\<close> with the \<open>message\<close> of the
  response, or the default text when it has none, as the error. Each of these results
  has \<open>success\<close> \<open>False\<close>.
\<close>

theorem exception_mapping:
  assumes "glob_star fs DATA_INPUTS = input_file # others"
  shows
    "(open_rb fs input_file = Inl e
      \<or> (\<exists>f. open_rb fs input_file = Inr f
            \<and> (net (the_request input_file f) = Inl e
               \<or> (\<exists>resp. net (the_request input_file f) = Inr resp
                     \<and> (raise_for_status resp = Some e
                        \<or> raise_for_status resp = None
                          \<and> (json resp = Inl e
                             \<or> (\<exists>v. json resp = Inr v
                                   \<and> (py_get v ''code'' PyNone = Inl e
                                      \<or> (\<exists>code content.
                                            py_get v ''code'' PyNone = Inr code
                                            \<and> py_eq_int code 200
                                            \<and> py_get v ''content'' (PyStr []) = Inr content
                                            \<and> output_obstacle os fs input_file content
                                                = Some e))))))))
      \<longrightarrow>
        (isinstance e Req_Timeout
           \<longrightarrow> fails_with (parse_file os fs net) ''TIMEOUT'' (Val (PyStr msg_timeout)))
      \<and> (\<not> isinstance e Req_Timeout \<and> isinstance e Req_ConnectionError
           \<longrightarrow> fails_with (parse_file os fs net) ''CONNECTION_ERROR''
                 (Val (PyStr msg_connection)))
      \<and> (\<not> isinstance e Req_Timeout \<and> \<not> isinstance e Req_ConnectionError
          \<and> isinstance e Req_HTTPError \<and> exc_response e = Some (status_code, body)
           \<longrightarrow> fails_with (parse_file os fs net) ''HTTP_ERROR''
                 (Val (PyStr (msg_http status_code body))))
      \<and> (\<not> isinstance e Req_Timeout \<and> \<not> isinstance e Req_ConnectionError
          \<and> \<not> isinstance e Req_HTTPError \<and> isinstance e Py_Exception
           \<longrightarrow> fails_with (parse_file os fs net) ''UNEXPECTED_ERROR'' (Str_of e)))
   \<and> (open_rb fs input_file = Inr f
      \<and> net (the_request input_file f) = Inr response \<and> raise_for_status response = None
      \<and> json response = Inr (PyDict items)
      \<and> \<not> py_eq_int (case map_of items (ascii ''code'') of None \<Rightarrow> PyNone | Some x \<Rightarrow> x) 200
      \<longrightarrow> fails_with (parse_file os fs net) ''PARSE_FAILED''
            (Val (case map_of items (ascii ''message'') of
                    None \<Rightarrow> PyStr msg_parse_failed | Some x \<Rightarrow> x)))"
proof (intro conjI impI)
  assume "open_rb fs input_file = Inr f
      \<and> net (the_request input_file f) = Inr response \<and> raise_for_status response = None
      \<and> json response = Inr (PyDict items)
      \<and> \<not> py_eq_int (case map_of items (ascii ''code'') of None \<Rightarrow> PyNone | Some x \<Rightarrow> x) 200"
  with assms show "fails_with (parse_file os fs net) ''PARSE_FAILED''
            (Val (case map_of items (ascii ''message'') of
                    None \<Rightarrow> PyStr msg_parse_failed | Some x \<Rightarrow> x))"
    by (simp add: parse_file_parse_failed fails_with_failure)
next
  assume "open_rb fs input_file = Inl e
      \<or> (\<exists>f. open_rb fs input_file = Inr f
            \<and> (net (the_request input_file f) = Inl e
               \<or> (\<exists>resp. net (the_request input_file f) = Inr resp
                     \<and> (raise_for_status resp = Some e
                        \<or> raise_for_status resp = None
                          \<and> (json resp = Inl e
                             \<or> (\<exists>v. json resp = Inr v
                                   \<and> (py_get v ''code'' PyNone = Inl e
                                      \<or> (\<exists>code content.
                                            py_get v ''code'' PyNone = Inr code
                                            \<and> py_eq_int code 200
                                            \<and> py_get v ''content'' (PyStr []) = Inr content
                                            \<and> output_obstacle os fs input_file content
                                                = Some e))))))))"
  with assms have "returned (try_body os fs net) = Inl e"
    by (auto simp: returned_try_body returned_after_response)
  then have run: "returned (parse_file os fs net) = except_clauses e"
    by (simp add: parse_file_returned)
  {
    assume "isinstance e Req_Timeout"
    with run show "fails_with (parse_file os fs net) ''TIMEOUT'' (Val (PyStr msg_timeout))"
      by (simp add: fails_with_failure except_clauses_def)
  }
  {
    assume "\<not> isinstance e Req_Timeout \<and> isinstance e Req_ConnectionError"
    with run show "fails_with (parse_file os fs net) ''CONNECTION_ERROR''
        (Val (PyStr msg_connection))"
      by (simp add: fails_with_failure except_clauses_def)
  }
  {
    assume "\<not> isinstance e Req_Timeout \<and> \<not> isinstance e Req_ConnectionError
          \<and> isinstance e Req_HTTPError \<and> exc_response e = Some (status_code, body)"
    with run show "fails_with (parse_file os fs net) ''HTTP_ERROR''
                 (Val (PyStr (msg_http status_code body)))"
      by (simp add: fails_with_failure except_clauses_def)
  }
  {
    assume "\<not> isinstance e Req_Timeout \<and> \<not> isinstance e Req_ConnectionError
          \<and> \<not> isinstance e Req_HTTPError \<and> isinstance e Py_Exception"
    with run show "fails_with (parse_file os fs net) ''UNEXPECTED_ERROR'' (Str_of e)"
      by (simp add: fails_with_failure except_clauses_def)
  }
qed

theorem exception_mapping_witness:
  "fails_with (parse_file no_faults fs_input (net_raises read_timeout)) ''TIMEOUT''
       (Val (PyStr msg_timeout))
   \<and> fails_with (parse_file no_faults fs_input (net_raises connection_error))
       ''CONNECTION_ERROR'' (Val (PyStr msg_connection))
   \<and> fails_with (parse_file no_faults fs_input (net_returns resp_404)) ''HTTP_ERROR''
       (Val (PyStr (msg_http 404 (ascii ''Not Found''))))
   \<and> fails_with (parse_file no_faults fs_input (net_raises value_error)) ''UNEXPECTED_ERROR''
       (Str_of value_error)
   \<and> fails_with (parse_file no_faults fs_input (net_returns resp_not_json))
       ''UNEXPECTED_ERROR'' (Str_of json_decode_error)
   \<and> fails_with (parse_file no_faults fs_blocked (net_returns resp_ok)) ''UNEXPECTED_ERROR''
       (Str_of (FileExistsError DATA_OUTPUTS))
   \<and> fails_with (parse_file no_faults fs_input (net_returns resp_500)) ''PARSE_FAILED''
       (Val (PyStr (ascii ''Internal server error'')))"
proof (intro conjI)
  note input = fs_input_eval(1)
  note opened = fs_input_eval(3)
  from exception_mapping [OF input, where net = "net_raises read_timeout" and e = read_timeout
      and os = no_faults]
  show "fails_with (parse_file no_faults fs_input (net_raises read_timeout)) ''TIMEOUT''
      (Val (PyStr msg_timeout))"
    by (simp add: opened net_eval isinstance_eval)
  from exception_mapping [OF input, where net = "net_raises connection_error"
      and e = connection_error and os = no_faults]
  show "fails_with (parse_file no_faults fs_input (net_raises connection_error))
      ''CONNECTION_ERROR'' (Val (PyStr msg_connection))"
    by (simp add: opened net_eval isinstance_eval)
  from exception_mapping [OF input, where net = "net_returns resp_404" and e = http_error_404
      and status_code = 404 and body = "ascii ''Not Found''" and os = no_faults]
  show "fails_with (parse_file no_faults fs_input (net_returns resp_404)) ''HTTP_ERROR''
       (Val (PyStr (msg_http 404 (ascii ''Not Found''))))"
    by (simp add: opened net_eval resp_eval isinstance_eval)
  from exception_mapping [OF input, where net = "net_raises value_error" and e = value_error
      and os = no_faults]
  show "fails_with (parse_file no_faults fs_input (net_raises value_error)) ''UNEXPECTED_ERROR''
       (Str_of value_error)"
    by (simp add: opened net_eval isinstance_eval)
  from exception_mapping [OF input, where net = "net_returns resp_not_json"
      and e = json_decode_error and os = no_faults]
  show "fails_with (parse_file no_faults fs_input (net_returns resp_not_json))
       ''UNEXPECTED_ERROR'' (Str_of json_decode_error)"
    by (simp add: opened net_eval more_resp_eval json_decode_error_eval)
  have blocked: "py_get (PyDict [(ascii ''code'', PyInt 200),
                          (ascii ''message'', PyStr (ascii ''success'')),
                          (ascii ''content'', PyStr (ascii ''# Test Document''))])
                   ''code'' PyNone = Inr (PyInt 200)"
    by (simp add: py_get_dict)
  have exists: "plain (FileExistsError DATA_OUTPUTS)"
    by (rule plain_errors)
  from exception_mapping [OF fs_blocked_eval(1), where net = "net_returns resp_ok"
      and e = "FileExistsError DATA_OUTPUTS" and os = no_faults]
  show "fails_with (parse_file no_faults fs_blocked (net_returns resp_ok)) ''UNEXPECTED_ERROR''
       (Str_of (FileExistsError DATA_OUTPUTS))"
    using exists
    by (simp add: fs_blocked_eval net_eval resp_ok_eval(1,2) blocked py_get_def
        obstacle_fs_blocked plain_def)
  from exception_mapping [OF input, where net = "net_returns resp_500" and response = resp_500
      and os = no_faults and f = pdf_bytes
      and items = "[(ascii ''code'', PyInt 500),
                    (ascii ''message'', PyStr (ascii ''Internal server error''))]"]
  show "fails_with (parse_file no_faults fs_input (net_returns resp_500)) ''PARSE_FAILED''
       (Val (PyStr (ascii ''Internal server error'')))"
    by (simp only: opened net_eval resp_eval resp_500_fields simp_thms)
qed

text \<open>
  The mapping as it was stated fails twice: \<open>ConnectTimeout\<close> is a \<open>ConnectionError\<close>, and the
  \<open>Timeout\<close> clause, which comes first, gives it \<open>TIMEOUT\<close>; and \<open>KeyboardInterrupt\<close>, one of
  the other exceptions, is raised, not mapped.
\<close>

theorem exception_mapping_counterexample:
  "isinstance connect_timeout Req_ConnectionError
   \<and> fails_with (parse_file no_faults fs_input (net_raises connect_timeout)) ''TIMEOUT''
       (Val (PyStr msg_timeout))
   \<and> \<not> fails_with (parse_file no_faults fs_input (net_raises connect_timeout))
       ''CONNECTION_ERROR'' (Val (PyStr msg_connection))
   \<and> returned (parse_file no_faults fs_input (net_raises keyboard_interrupt)) =
       Inl keyboard_interrupt"
proof -
  have "parse_file no_faults fs_input (net_raises connect_timeout) =
      \<lparr>returned = except_clauses connect_timeout, fs_after = fs_input,
       trace = [Ev_glob DATA_INPUTS, Ev_open test_pdf, Ev_post (the_request test_pdf pdf_bytes)]\<rparr>"
    by (rule parse_file_raises [where ps = "[]"]) (simp_all add: fs_input_eval net_raises_def)
  then have ct: "returned (parse_file no_faults fs_input (net_raises connect_timeout)) =
      Inr (failure (Val (PyStr msg_timeout)) ''TIMEOUT'')"
    by (simp add: except_clauses_eval)
  have "parse_file no_faults fs_input (net_raises keyboard_interrupt) =
      \<lparr>returned = except_clauses keyboard_interrupt, fs_after = fs_input,
       trace = [Ev_glob DATA_INPUTS, Ev_open test_pdf, Ev_post (the_request test_pdf pdf_bytes)]\<rparr>"
    by (rule parse_file_raises [where ps = "[]"]) (simp_all add: fs_input_eval net_raises_def)
  then have ki: "returned (parse_file no_faults fs_input (net_raises keyboard_interrupt)) =
      Inl keyboard_interrupt"
    by (simp add: except_clauses_eval)
  from ct have "\<not> fails_with (parse_file no_faults fs_input (net_raises connect_timeout))
      ''CONNECTION_ERROR'' (Val (PyStr msg_connection))"
    by (simp add: fails_with_def failure_fields timeout_is_not_connection)
  with ct ki show ?thesis
    by (simp add: fails_with_failure isinstance_eval)
qed




text \<open>
  C5. Every request \<open>parse_file\<close> sends is a POST of one multipart file field to
  \<open>http://10.0.0.111:31475/parse\<close> with the parameters \<open>format='md'\<close> and \<open>cache=True\<close>,
  and the call passes no headers, cookies or authentication.
\<close>

theorem single_fixed_endpoint:
  assumes "req \<in> set (posts (trace (parse_file os fs net)))"
  shows "req_url req = ascii ''http://10.0.0.111:31475/parse''
    \<and> req_params req = [(ascii ''format'', PyStr (ascii ''md'')), (ascii ''cache'', PyBool True)]
    \<and> (\<exists>name f. req_files req = [(ascii ''file'', name, f, ascii ''application/octet-stream'')])
    \<and> req_headers req = None \<and> req_cookies req = None \<and> req_auth req = None"
  using assms
  by (auto simp: posts_parse_file the_request_def url_parse split: list.splits sum.splits)

theorem single_fixed_endpoint_witness:
  "the_request test_pdf pdf_bytes
     \<in> set (posts (trace (parse_file no_faults fs_input (net_returns resp_ok))))
   \<and> req_url (the_request test_pdf pdf_bytes) = ascii ''http://10.0.0.111:31475/parse''
   \<and> req_params (the_request test_pdf pdf_bytes) =
        [(ascii ''format'', PyStr (ascii ''md'')), (ascii ''cache'', PyBool True)]
   \<and> req_auth (the_request test_pdf pdf_bytes) = None"
proof -
  have h: "the_request test_pdf pdf_bytes
      \<in> set (posts (trace (parse_file no_faults fs_input (net_returns resp_ok))))"
    by (simp add: posts_parse_file fs_input_eval)
  from single_fixed_endpoint [OF h] h show ?thesis by simp
qed

text \<open>
  C6. A call sends at most one request. When the request, or \<open>raise_for_status\<close> on its
  response, raises, the request is the last thing the call does and the filesystem is as
  it was; and the call returns the failure result of the error: the \<open>TIMEOUT\<close> dictionary
  for a timeout, the \<open>CONNECTION_ERROR\<close> dictionary for a connection error that is no
  timeout, the \<open>HTTP_ERROR\<close> dictionary with the status and the text of the response for an
  HTTP error.
\<close>

theorem at_most_one_post:
  "length (posts (trace (parse_file os fs net))) \<le> 1
   \<and> (glob_star fs DATA_INPUTS = p # ps \<and> open_rb fs p = Inr f
        \<and> (net (the_request p f) = Inl e
             \<or> (\<exists>resp. net (the_request p f) = Inr resp \<and> raise_for_status resp = Some e))
      \<longrightarrow> trace (parse_file os fs net) =
            [Ev_glob DATA_INPUTS, Ev_open p, Ev_post (the_request p f)]
          \<and> fs_after (parse_file os fs net) = fs
          \<and> (isinstance e Req_Timeout
               \<longrightarrow> returned (parse_file os fs net) =
                     Inr [(''success'', Val (PyBool False)),
                          (''error'', Val (PyStr msg_timeout)),
                          (''error_code'', Val (PyStr (ascii ''TIMEOUT'')))])
          \<and> (\<not> isinstance e Req_Timeout \<and> isinstance e Req_ConnectionError
               \<longrightarrow> returned (parse_file os fs net) =
                     Inr [(''success'', Val (PyBool False)),
                          (''error'', Val (PyStr msg_connection)),
                          (''error_code'', Val (PyStr (ascii ''CONNECTION_ERROR'')))])
          \<and> (\<not> isinstance e Req_Timeout \<and> \<not> isinstance e Req_ConnectionError
              \<and> isinstance e Req_HTTPError \<and> exc_response e = Some (status_code, body)
               \<longrightarrow> returned (parse_file os fs net) =
                     Inr [(''success'', Val (PyBool False)),
                          (''error'', Val (PyStr (msg_http status_code body))),
                          (''error_code'', Val (PyStr (ascii ''HTTP_ERROR'')))]))"
proof (intro conjI impI)
  show "length (posts (trace (parse_file os fs net))) \<le> 1"
    by (simp add: posts_parse_file split: list.splits sum.splits)
next
  assume a: "glob_star fs DATA_INPUTS = p # ps \<and> open_rb fs p = Inr f
        \<and> (net (the_request p f) = Inl e
             \<or> (\<exists>resp. net (the_request p f) = Inr resp \<and> raise_for_status resp = Some e))"
  then have run: "parse_file os fs net =
    \<lparr>returned = except_clauses e, fs_after = fs,
     trace = [Ev_glob DATA_INPUTS, Ev_open p, Ev_post (the_request p f)]\<rparr>"
    using parse_file_raises [where os = os and fs = fs and p = p and ps = ps and f = f
        and net = net and e = e]
      parse_file_status_raises [where os = os and fs = fs and p = p and ps = ps and f = f
        and net = net and e = e]
    by blast
  then show "trace (parse_file os fs net) =
      [Ev_glob DATA_INPUTS, Ev_open p, Ev_post (the_request p f)]"
    by simp
  from run show "fs_after (parse_file os fs net) = fs"
    by simp
  {
    assume "isinstance e Req_Timeout"
    with run show "returned (parse_file os fs net) =
        Inr [(''success'', Val (PyBool False)),
             (''error'', Val (PyStr msg_timeout)),
             (''error_code'', Val (PyStr (ascii ''TIMEOUT'')))]"
      by (simp add: except_clauses_def failure_def)
  }
  {
    assume "\<not> isinstance e Req_Timeout \<and> isinstance e Req_ConnectionError"
    with run show "returned (parse_file os fs net) =
        Inr [(''success'', Val (PyBool False)),
             (''error'', Val (PyStr msg_connection)),
             (''error_code'', Val (PyStr (ascii ''CONNECTION_ERROR'')))]"
      by (simp add: except_clauses_def failure_def)
  }
  {
    assume "\<not> isinstance e Req_Timeout \<and> \<not> isinstance e Req_ConnectionError
              \<and> isinstance e Req_HTTPError \<and> exc_response e = Some (status_code, body)"
    with run show "returned (parse_file os fs net) =
        Inr [(''success'', Val (PyBool False)),
             (''error'', Val (PyStr (msg_http status_code body))),
             (''error_code'', Val (PyStr (ascii ''HTTP_ERROR'')))]"
      by (simp add: except_clauses_def failure_def)
  }
qed

theorem at_most_one_post_witness:
  "length (posts (trace (parse_file no_faults fs_input (net_raises connection_error)))) \<le> 1
   \<and> trace (parse_file no_faults fs_input (net_raises connection_error)) =
       [Ev_glob DATA_INPUTS, Ev_open test_pdf, Ev_post (the_request test_pdf pdf_bytes)]
   \<and> returned (parse_file no_faults fs_input (net_raises connection_error)) =
       Inr [(''success'', Val (PyBool False)),
            (''error'', Val (PyStr msg_connection)),
            (''error_code'', Val (PyStr (ascii ''CONNECTION_ERROR'')))]
   \<and> returned (parse_file no_faults fs_input (net_raises read_timeout)) =
       Inr [(''success'', Val (PyBool False)),
            (''error'', Val (PyStr msg_timeout)),
            (''error_code'', Val (PyStr (ascii ''TIMEOUT'')))]
   \<and> trace (parse_file no_faults fs_input (net_returns resp_404)) =
       [Ev_glob DATA_INPUTS, Ev_open test_pdf, Ev_post (the_request test_pdf pdf_bytes)]
   \<and> returned (parse_file no_faults fs_input (net_returns resp_404)) =
       Inr [(''success'', Val (PyBool False)),
            (''error'', Val (PyStr (msg_http 404 (ascii ''Not Found'')))),
            (''error_code'', Val (PyStr (ascii ''HTTP_ERROR'')))]"
proof -
  note input = fs_input_eval(1,3)
  from at_most_one_post [where os = no_faults and fs = fs_input and p = test_pdf
      and ps = "[]" and f = pdf_bytes and net = "net_raises connection_error"
      and e = connection_error]
  have c: "length (posts (trace (parse_file no_faults fs_input (net_raises connection_error)))) \<le> 1
   \<and> trace (parse_file no_faults fs_input (net_raises connection_error)) =
       [Ev_glob DATA_INPUTS, Ev_open test_pdf, Ev_post (the_request test_pdf pdf_bytes)]
   \<and> returned (parse_file no_faults fs_input (net_raises connection_error)) =
       Inr [(''success'', Val (PyBool False)),
            (''error'', Val (PyStr msg_connection)),
            (''error_code'', Val (PyStr (ascii ''CONNECTION_ERROR'')))]"
    by (simp add: input net_eval isinstance_eval)
  from at_most_one_post [where os = no_faults and fs = fs_input and p = test_pdf
      and ps = "[]" and f = pdf_bytes and net = "net_raises read_timeout"
      and e = read_timeout]
  have t: "returned (parse_file no_faults fs_input (net_raises read_timeout)) =
       Inr [(''success'', Val (PyBool False)),
            (''error'', Val (PyStr msg_timeout)),
            (''error_code'', Val (PyStr (ascii ''TIMEOUT'')))]"
    by (simp add: input net_eval isinstance_eval)
  from at_most_one_post [where os = no_faults and fs = fs_input and p = test_pdf
      and ps = "[]" and f = pdf_bytes and net = "net_returns resp_404"
      and e = http_error_404 and status_code = 404 and body = "ascii ''Not Found''"]
  have h: "trace (parse_file no_faults fs_input (net_returns resp_404)) =
       [Ev_glob DATA_INPUTS, Ev_open test_pdf, Ev_post (the_request test_pdf pdf_bytes)]
   \<and> returned (parse_file no_faults fs_input (net_returns resp_404)) =
       Inr [(''success'', Val (PyBool False)),
            (''error'', Val (PyStr (msg_http 404 (ascii ''Not Found'')))),
            (''error_code'', Val (PyStr (ascii ''HTTP_ERROR'')))]"
    by (simp add: input net_eval resp_eval isinstance_eval)
  from c t h show ?thesis by blast
qed




text \<open>
  C8. Whenever \<open>parse_file\<close> returns \<open>success\<close> \<open>False\<close> with \<open>error_code\<close>
  \<open>NO_INPUT_FILE\<close>, \<open>TIMEOUT\<close>, \<open>CONNECTION_ERROR\<close>, \<open>HTTP_ERROR\<close> or \<open>PARSE_FAILED\<close>,
  the filesystem is as it was before the call: the output directory has not been made and
  nothing has been written.
\<close>

theorem failure_leaves_filesystem:
  assumes "fails_with (parse_file os fs net) code err"
    and "code \<in> {''NO_INPUT_FILE'', ''TIMEOUT'', ''CONNECTION_ERROR'', ''HTTP_ERROR'', ''PARSE_FAILED''}"
  shows "fs_after (parse_file os fs net) = fs \<and> changes (trace (parse_file os fs net)) = []"
proof (cases rule: try_body_cases [where os = os and fs = fs and net = net])
  case no_input
  then show ?thesis by (simp add: parse_file_fs_after parse_file_trace)
next
  case (open_failed p ps e)
  then show ?thesis by (simp add: parse_file_fs_after parse_file_trace)
next
  case (request_failed p ps f e)
  then show ?thesis by (simp add: parse_file_fs_after parse_file_trace)
next
  case (responded p ps f resp v)
  let ?tr = "[Ev_glob DATA_INPUTS, Ev_open p, Ev_post (the_request p f)]"
  show ?thesis
  proof (cases rule: after_response_cases [of os fs ?tr p v])
    case (not_dict e)
    with responded show ?thesis by (simp add: parse_file_fs_after parse_file_trace)
  next
    case (parse_failed items)
    with responded show ?thesis by (simp add: parse_file_fs_after parse_file_trace)
  next
    case (mkdir_failed e fs1)
    with responded have "returned (try_body os fs net) = Inl e" by simp
    from plain_not_early [OF mkdir_failed(1) this assms(2)] assms(1) show ?thesis
      by blast
  next
    case (write_failed items e fs1 fs2)
    with responded have "returned (try_body os fs net) = Inl e" by simp
    from plain_not_early [OF write_failed(1) this assms(2)] assms(1) show ?thesis
      by blast
  next
    case (written items content fs1 fs2)
    with responded assms(1) show ?thesis
      by (simp add: fails_with_def parse_file_returned)
  qed
qed

theorem failure_leaves_filesystem_witness:
  "fails_with (parse_file no_faults fs_input (net_raises read_timeout)) ''TIMEOUT''
     (Val (PyStr msg_timeout))
   \<and> fs_after (parse_file no_faults fs_input (net_raises read_timeout)) = fs_input
   \<and> changes (trace (parse_file no_faults fs_input (net_raises read_timeout))) = []"
proof -
  have run: "parse_file no_faults fs_input (net_raises read_timeout) =
      \<lparr>returned = except_clauses read_timeout, fs_after = fs_input,
       trace = [Ev_glob DATA_INPUTS, Ev_open test_pdf, Ev_post (the_request test_pdf pdf_bytes)]\<rparr>"
    by (rule parse_file_raises [where ps = "[]"]) (simp_all add: fs_input_eval net_raises_def)
  then have h: "fails_with (parse_file no_faults fs_input (net_raises read_timeout)) ''TIMEOUT''
      (Val (PyStr msg_timeout))"
    by (simp add: fails_with_failure except_clauses_eval)
  have "''TIMEOUT'' \<in> {''NO_INPUT_FILE'', ''TIMEOUT'', ''CONNECTION_ERROR'', ''HTTP_ERROR'',
      ''PARSE_FAILED''}"
    by simp
  from failure_leaves_filesystem [OF h this] h show ?thesis
    by (intro conjI) (elim conjE, assumption)+
qed



text \<open>
  C10. When the first entry of the input directory is a regular file, the response passes
  \<open>raise_for_status\<close>, its JSON body is an object with \<open>code\<close> 200 and no \<open>content\<close> field,
  and making \<open>data/outputs\<close> and writing the empty text to the output file raise nothing,
  \<open>parse_file\<close> returns \<open>success\<close> \<open>True\<close> with the empty string as \<open>content\<close> and writes
  an empty output file.
\<close>

theorem parse_file_without_content:
  assumes "glob_star fs DATA_INPUTS = input_file # others"
    and "fs input_file = Some (File f)"
    and "net (the_request input_file f) = Inr resp"
    and "raise_for_status resp = None"
    and "json resp = Inr (PyDict items)"
    and "map_of items (ascii ''code'') = Some code"
    and "py_eq_int code 200"
    and "map_of items (ascii ''content'') = None"
    and "output_obstacle os fs input_file (PyStr []) = None"
  shows "returned (parse_file os fs net) =
      Inr [(''success'', Val (PyBool True)),
           (''message'', Val (PyStr msg_success)),
           (''content'', Val (PyStr [])),
           (''input_file'', Val (PyStr (last input_file))),
           (''output_file'', Val (PyStr (stem (last input_file) @ ascii ''_parsed.md'')))]
    \<and> fs_after (parse_file os fs net) (DATA_OUTPUTS @ [stem (last input_file) @ ascii ''_parsed.md''])
        = Some (File [])"
proof -
  from assms(6,7) have code: "py_eq_int
      (case map_of items (ascii ''code'') of None \<Rightarrow> PyNone | Some x \<Rightarrow> x) 200"
    by simp
  from assms(8) have content:
    "(case map_of items (ascii ''content'') of None \<Rightarrow> PyStr [] | Some x \<Rightarrow> x) = PyStr []"
    by simp
  from success_path [where s = "[]" and os = os and others = others and fs = fs
        and input_file = input_file and f = f and net = net and resp = resp and items = items,
      OF assms(1-5) code content assms(9)] show ?thesis
    by (simp add: output_path_def utf8_encode_def)
qed

theorem parse_file_without_content_witness:
  "output_obstacle no_faults fs_input test_pdf (PyStr []) = None
   \<and> returned (parse_file no_faults fs_input (net_returns resp_no_content)) =
      Inr [(''success'', Val (PyBool True)),
           (''message'', Val (PyStr msg_success)),
           (''content'', Val (PyStr [])),
           (''input_file'', Val (PyStr (ascii ''test.pdf''))),
           (''output_file'', Val (PyStr (ascii ''test_parsed.md'')))]
   \<and> fs_after (parse_file no_faults fs_input (net_returns resp_no_content))
        (DATA_OUTPUTS @ [ascii ''test_parsed.md'']) = Some (File [])"
proof -
  have name: "last test_pdf = ascii ''test.pdf''"
    "stem (ascii ''test.pdf'') @ ascii ''_parsed.md'' = ascii ''test_parsed.md''"
    by (simp_all add: test_pdf_def stem_def ascii_def)
  have free: "output_obstacle no_faults fs_input test_pdf (PyStr []) = None"
    by (simp add: obstacle_fs_input)
  have "py_eq_int (PyInt 200) 200" by simp
  from parse_file_without_content [where os = no_faults and fs = fs_input
      and input_file = test_pdf and others = "[]" and f = pdf_bytes
      and net = "net_returns resp_no_content" and resp = resp_no_content
      and code = "PyInt 200",
      OF fs_input_eval(1,2) net_eval(1) resp_no_content_eval(1,2,3) this
      resp_no_content_eval(4) free]
  show ?thesis by (simp only: name free simp_thms)
qed

text \<open>
  As it was stated the claim fails where the output cannot be written: with a regular
  file in the place of \<open>data/outputs\<close>, \<open>mkdir\<close> raises \<open>FileExistsError\<close> and the call
  returns \<open>UNEXPECTED_ERROR\<close>, although the response has \<open>code\<close> 200 and no \<open>content\<close>.
\<close>

theorem parse_file_without_content_counterexample:
  "json resp_no_content = Inr (PyDict [(ascii ''code'', PyInt 200)])
   \<and> map_of [(ascii ''code'', PyInt 200)] (ascii ''content'') = None
   \<and> fs_blocked DATA_OUTPUTS = Some (File [])
   \<and> fails_with (parse_file no_faults fs_blocked (net_returns resp_no_content))
        ''UNEXPECTED_ERROR'' (Str_of (FileExistsError DATA_OUTPUTS))
   \<and> fs_after (parse_file no_faults fs_blocked (net_returns resp_no_content))
        (DATA_OUTPUTS @ [ascii ''test_parsed.md'']) = None"
proof -
  have bad: "returned (parse_file no_faults fs_blocked (net_returns resp_no_content)) =
      Inr (failure (Str_of (FileExistsError DATA_OUTPUTS)) ''UNEXPECTED_ERROR'')"
    by (rule output_refused [where ps = "[]" and fs = fs_blocked and p = test_pdf
          and f = pdf_bytes and net = "net_returns resp_no_content" and resp = resp_no_content,
          OF fs_blocked_eval(1,2) net_eval(1) resp_no_content_eval(1,2) code_200
          obstacle_fs_blocked])
  have nf: "mkdir_fault no_faults DATA_OUTPUTS = None" "mkdir_fault no_faults [ascii ''data''] = None"
    by (simp_all add: no_faults_eval)
  have b: "fs_blocked DATA_OUTPUTS = Some (File [])"
    "fs_blocked (DATA_OUTPUTS @ [ascii ''test_parsed.md'']) = None"
    by (simp_all add: fs_blocked_def fs_input_def test_pdf_def DATA_INPUTS_def DATA_OUTPUTS_def
        ascii_def)
  have "fs_after (parse_file no_faults fs_blocked (net_returns resp_no_content)) = fs_blocked"
    by (simp add: parse_file_fs_after try_body_def fs_blocked_eval net_eval
        resp_no_content_eval(1,2) after_response_def py_get_dict code_200
        mkdir_outputs [OF nf] b)
  with b(2) have a: "fs_after (parse_file no_faults fs_blocked (net_returns resp_no_content))
        (DATA_OUTPUTS @ [ascii ''test_parsed.md'']) = None"
    by simp
  from bad have f: "fails_with (parse_file no_faults fs_blocked (net_returns resp_no_content))
        ''UNEXPECTED_ERROR'' (Str_of (FileExistsError DATA_OUTPUTS))"
    by (rule fails_with_failure)
  from resp_no_content_eval(2,4) b(1) f a show ?thesis
    by (simp only: simp_thms)
qed

end
